theory Spec2Isabelle
  imports Complex_Main
begin

section \<open>Data model\<close>

text \<open>
  The subscription slice of the backend keeps four MongoDB collections (Mongoose models):
  subscriptions, users, payments and notifications. A collection is a list of documents,
  a document is a record. Object ids are natural numbers, dates are milliseconds since the
  epoch, JavaScript numbers that count or measure are rationals (usage counters are
  integral except storage, which is in GB), JavaScript strings are strings.
\<close>

type_synonym oid = nat
type_synonym date = int

datatype error =
    APIError string nat
  | ValidationError string
  | DuplicateKeyError string
  | TypeError string

text \<open>\<open>usage.<resource>\<close> of the subscription schema: \<open>{ current, limit }\<close>.\<close>

record usage_entry =
  current :: rat
  limit :: rat

text \<open>An element of \<open>history\<close>: \<open>{ action, date, details }\<close>.\<close>

record history_entry =
  h_action :: string
  h_date :: date
  h_details :: string

record cancellation_info =
  c_reason :: "string option"
  c_feedback :: "string option"
  c_cancelledBy :: "oid option"

record subscription =
  s_id :: oid
  s_user :: oid
  s_plan :: oid
  razorpaySubscriptionId :: string
  s_razorpayCustomerId :: string
  s_status :: string
  billingCycle :: string
  startDate :: date
  endDate :: "date option"
  nextBillingDate :: "date option"
  cancelledAt :: "date option"
  usage :: "(string \<times> usage_entry) list"
  features :: "(string \<times> bool) list"
  history :: "history_entry list"
  cancellation :: "cancellation_info option"

record user =
  u_id :: oid
  firstName :: string
  lastName :: string
  email :: string
  u_razorpayCustomerId :: "string option"
  subscriptionStatus :: string
  subscriptionExpiry :: "date option"

record card_info =
  last4 :: string
  network :: string
  card_type :: string

record payment_error =
  e_code :: string
  e_description :: string
  e_source :: string
  e_step :: string
  e_reason :: string

record payment_note =
  content :: string
  createdAt :: date

record payment =
  p_id :: oid
  p_user :: oid
  p_subscription :: "oid option"
  razorpayPaymentId :: string
  razorpayOrderId :: string
  p_amount :: rat
  p_currency :: string
  p_status :: string
  paymentMethod_type :: string
  paymentMethod_card :: "card_info option"
  paidAt :: "date option"
  failedAt :: "date option"
  p_description :: string
  p_error :: "payment_error option"
  p_notes :: "payment_note list"
  receipt_number :: string

record notification =
  n_id :: oid
  n_title :: string
  n_message :: string
  n_type :: string
  n_recipient :: oid
  relatedEntity_type :: string
  relatedEntity_id :: oid
  n_priority :: string

record world =
  subscriptions :: "subscription list"
  users :: "user list"
  payments :: "payment list"
  notifications :: "notification list"

text \<open>
  What a request reads from outside the collections: the clock (\<open>new Date()\<close>,
  \<open>Date.now()\<close>), the receipt number \<open>RCP-<Date.now()>-<random>\<close> made up for a payment
  that brings none, and the text the runtime prints for an amount in paise as rupees.
\<close>

record env =
  now :: date
  receipt :: string
  rupees :: "int \<Rightarrow> string"

text \<open>The webhook body: \<open>data.payment\<close> and \<open>data.subscription\<close>, either of which may be missing.\<close>

record payment_payload =
  pp_id :: string
  order_id :: string
  pp_amount :: int
  pp_currency :: "string option"
  pp_method :: string
  created_at :: int
  card :: "card_info option"
  error_code :: string
  error_description :: string
  error_source :: string
  error_step :: string
  error_reason :: string

record subscription_payload =
  sp_id :: string
  current_end :: int

record webhook_data =
  d_payment :: "payment_payload option"
  d_subscription :: "subscription_payload option"

section \<open>Asynchronous calls\<close>

text \<open>
  A model method or handler reads and writes the collections and either returns or throws.
  There are no transactions: what was written before a throw stays written.
\<close>

type_synonym 'a io = "world \<Rightarrow> (error + 'a) \<times> world"

definition resolve :: "'a \<Rightarrow> 'a io" where
  "resolve a w = (Inr a, w)"

text \<open>\<open>const x = await m; k x\<close>: a rejection of \<open>m\<close> leaves the function at once.\<close>

definition await :: "'a io \<Rightarrow> ('a \<Rightarrow> 'b io) \<Rightarrow> 'b io" where
  "await m k w =
     (case m w of
        (Inl e, w') \<Rightarrow> (Inl e, w')
      | (Inr a, w') \<Rightarrow> k a w')"

section \<open>Usage ledger (subscription model)\<close>

definition findById :: "oid \<Rightarrow> subscription list \<Rightarrow> subscription option" where
  "findById i xs = find (\<lambda>s. s_id s = i) xs"

text \<open>\<open>doc.save()\<close> of a document read by \<open>findById\<close>: the stored document of that id is replaced.\<close>

definition save :: "subscription \<Rightarrow> world \<Rightarrow> world" where
  "save doc w =
     w\<lparr>subscriptions := map (\<lambda>s. if s_id s = s_id doc then doc else s) (subscriptions w)\<rparr>"

text \<open>
  \<open>updateUsage(subscriptionId, resourceType, increment = 1)\<close>: NotFound when the
  subscription is missing; otherwise \<open>current += increment\<close> on a known resource type and
  nothing on an unknown one. The subscription is returned. The sum here is the exact one;
  it is the number the runtime stores when \<open>current\<close> and \<open>increment\<close> are integers (of
  magnitude below \<open>2^53\<close>), and may differ from it by rounding when they are fractions, so
  the properties below speak of integral counters and amounts only.
\<close>

definition updateUsage ::
  "oid \<Rightarrow> string \<Rightarrow> rat \<Rightarrow> world \<Rightarrow> (error + subscription) \<times> world" where
  "updateUsage subscriptionId resourceType increment w =
     (case findById subscriptionId (subscriptions w) of
        None \<Rightarrow> (Inl (APIError ''Subscription not found'' 404), w)
      | Some subscription \<Rightarrow>
          (case map_of (usage subscription) resourceType of
             None \<Rightarrow> (Inr subscription, w)
           | Some resource \<Rightarrow>
               let subscription' = subscription\<lparr>usage :=
                     map (\<lambda>(k, r). if k = resourceType
                            then (k, r\<lparr>current := current r + increment\<rparr>) else (k, r))
                         (usage subscription)\<rparr>
               in (Inr subscription', save subscription' w)))"

text \<open>The result object of \<open>checkUsageLimit\<close>: \<open>{ allowed, reason, current?, limit? }\<close>.\<close>

record usage_check =
  allowed :: bool
  check_reason :: string
  check_current :: "rat option"
  check_limit :: "rat option"

definition checkUsageLimit :: "oid \<Rightarrow> string \<Rightarrow> world \<Rightarrow> usage_check" where
  "checkUsageLimit subscriptionId resourceType w =
     (case findById subscriptionId (subscriptions w) of
        None \<Rightarrow> \<lparr>allowed = False, check_reason = ''Subscription not found'',
                  check_current = None, check_limit = None\<rparr>
      | Some subscription \<Rightarrow>
          (case map_of (usage subscription) resourceType of
             None \<Rightarrow> \<lparr>allowed = False, check_reason = ''Resource type not found'',
                       check_current = None, check_limit = None\<rparr>
           | Some resource \<Rightarrow>
               if limit resource = - 1
               then \<lparr>allowed = True, check_reason = ''Unlimited'',
                     check_current = None, check_limit = None\<rparr>
               else if current resource < limit resource
               then \<lparr>allowed = True, check_reason = ''Within limit'',
                     check_current = None, check_limit = None\<rparr>
               else \<lparr>allowed = False, check_reason = ''Usage limit exceeded'',
                     check_current = Some (current resource),
                     check_limit = Some (limit resource)\<rparr>))"

text \<open>
  Reserving is the calling pattern of the subscription guide: ask \<open>checkUsageLimit\<close>, and
  when it allows, count the new resource with \<open>updateUsage\<close>. The check does not see the
  amount. These are two calls, and \<open>checkAndReserve\<close> is one caller making them with no
  other request in between; nothing in the source joins them or keeps other requests out.
\<close>

definition checkAndReserve ::
  "oid \<Rightarrow> string \<Rightarrow> rat \<Rightarrow> world \<Rightarrow> usage_check \<times> world" where
  "checkAndReserve subscriptionId resourceType amount w =
     (let usageCheck = checkUsageLimit subscriptionId resourceType w
      in if allowed usageCheck
         then (usageCheck, snd (updateUsage subscriptionId resourceType amount w))
         else (usageCheck, w))"

text \<open>The stored counter of a subscription and resource type.\<close>

definition usageOf :: "oid \<Rightarrow> string \<Rightarrow> world \<Rightarrow> usage_entry option" where
  "usageOf subscriptionId resourceType w =
     (case findById subscriptionId (subscriptions w) of
        None \<Rightarrow> None
      | Some subscription \<Rightarrow> map_of (usage subscription) resourceType)"

text \<open>
  \<open>n\<close> reservations of one unit each, strictly one after the other: each check is followed
  by its update before the next check is made.
\<close>

fun reserveTimes :: "nat \<Rightarrow> oid \<Rightarrow> string \<Rightarrow> world \<Rightarrow> world" where
  "reserveTimes 0 subscriptionId resourceType w = w"
| "reserveTimes (Suc n) subscriptionId resourceType w =
     reserveTimes n subscriptionId resourceType
       (snd (checkAndReserve subscriptionId resourceType 1 w))"

section \<open>Subscription model: lifecycle and lookup\<close>

text \<open>The \<open>enum\<close> lists of the subscription schema, checked when a document is saved.\<close>

definition statusEnum :: "string list" where
  "statusEnum = [''active'', ''inactive'', ''trialing'', ''past_due'', ''cancelled'', ''paused'']"

definition actionEnum :: "string list" where
  "actionEnum = [''created'', ''activated'', ''renewed'', ''cancelled'', ''paused'', ''resumed'',
     ''upgraded'', ''downgraded'']"

text \<open>
  \<open>updateSubscriptionStatus(subscriptionId, status, details = null)\<close>: NotFound when the
  subscription is missing; otherwise the status is assigned, one history entry is pushed
  (its action is \<open>cancelled\<close> for the target \<open>cancelled\<close> and \<open>activated\<close> for every other
  target), \<open>cancelledAt\<close> is set for the target \<open>cancelled\<close>, and the document is saved.
  The current status is only read for the text of the entry.
\<close>

definition updateSubscriptionStatus ::
  "env \<Rightarrow> oid \<Rightarrow> string \<Rightarrow> string option \<Rightarrow> subscription io" where
  "updateSubscriptionStatus ev subscriptionId status details w =
     (case findById subscriptionId (subscriptions w) of
        None \<Rightarrow> (Inl (APIError ''Subscription not found'' 404), w)
      | Some subscription \<Rightarrow>
          let oldStatus = s_status subscription;
              entry = \<lparr>h_action = (if status = ''cancelled'' then ''cancelled'' else ''activated''),
                       h_date = now ev,
                       h_details =
                         (case details of
                            Some d \<Rightarrow>
                              if d \<noteq> [] then d
                              else ''Status changed from '' @ oldStatus @ '' to '' @ status
                          | None \<Rightarrow> ''Status changed from '' @ oldStatus @ '' to '' @ status)\<rparr>;
              subscription' = subscription
                \<lparr>s_status := status,
                 history := history subscription @ [entry],
                 cancelledAt :=
                   (if status = ''cancelled'' then Some (now ev) else cancelledAt subscription)\<rparr>
          in if status \<in> set statusEnum \<and> h_action entry \<in> set actionEnum
             then (Inr subscription', save subscription' w)
             else (Inl (ValidationError ''status''), w))"

text \<open>
  A webhook handler reads \<open>subscriptionRecord\<close> first, lets the model methods work on
  their own copies, and afterwards pushes a history entry onto its copy (assigning dates
  before, in two handlers) and saves it. Mongoose writes the modified paths only: the
  assigned fields are set and the pushed entry is appended on the stored document, so
  what the model methods saved in between stays. The pushed entry is validated first.
\<close>

definition saveChanges ::
  "oid \<Rightarrow> (subscription \<Rightarrow> subscription) \<Rightarrow> history_entry \<Rightarrow> unit io" where
  "saveChanges subscriptionId assigned entry w =
     (if h_action entry \<in> set actionEnum
      then (Inr (),
            w\<lparr>subscriptions :=
                map (\<lambda>s. if s_id s = subscriptionId
                          then (assigned s)\<lparr>history := history s @ [entry]\<rparr> else s)
                    (subscriptions w)\<rparr>)
      else (Inl (ValidationError ''history.action''), w))"

definition getUserActiveSubscription :: "oid \<Rightarrow> world \<Rightarrow> subscription option" where
  "getUserActiveSubscription userId w =
     find (\<lambda>s. s_user s = userId \<and> s_status s \<in> set [''active'', ''trialing''])
       (subscriptions w)"

text \<open>
  The controller's \<open>getUsageStats\<close>, for the user of the request: NotFound without an
  active subscription, otherwise its \<open>usage\<close>, \<open>features\<close> and \<open>plan\<close>.
\<close>

definition getUsageStats ::
  "oid \<Rightarrow> world \<Rightarrow> error + (string \<times> usage_entry) list \<times> (string \<times> bool) list \<times> oid" where
  "getUsageStats userId w =
     (case getUserActiveSubscription userId w of
        None \<Rightarrow> Inl (APIError ''No active subscription found'' 404)
      | Some subscription \<Rightarrow>
          Inr (usage subscription, features subscription, s_plan subscription))"

section \<open>User model: subscription tracking\<close>

definition userStatusEnum :: "string list" where
  "userStatusEnum = [''trial'', ''active'', ''expired'', ''cancelled'', ''none'']"

definition User_updateSubscriptionStatus :: "oid \<Rightarrow> string \<Rightarrow> date option \<Rightarrow> user io" where
  "User_updateSubscriptionStatus userId status expiryDate w =
     (case find (\<lambda>u. u_id u = userId) (users w) of
        None \<Rightarrow> (Inl (APIError ''User not found'' 404), w)
      | Some usr \<Rightarrow>
          let usr' = usr
                \<lparr>subscriptionStatus := status,
                 subscriptionExpiry :=
                   (case expiryDate of Some d \<Rightarrow> Some d | None \<Rightarrow> subscriptionExpiry usr)\<rparr>
          in if status \<in> set userStatusEnum
             then (Inr usr', w\<lparr>users := map (\<lambda>u. if u_id u = userId then usr' else u) (users w)\<rparr>)
             else (Inl (ValidationError ''subscriptionStatus''), w))"

definition hasActiveSubscription :: "env \<Rightarrow> oid \<Rightarrow> world \<Rightarrow> bool" where
  "hasActiveSubscription ev userId w =
     (case find (\<lambda>u. u_id u = userId) (users w) of
        None \<Rightarrow> False
      | Some usr \<Rightarrow>
          subscriptionStatus usr \<in> set [''active'', ''trial''] \<and>
          (case subscriptionExpiry usr of None \<Rightarrow> True | Some expiry \<Rightarrow> now ev < expiry))"

record subscription_info =
  i_status :: string
  i_expiry :: "date option"
  i_isActive :: bool
  i_razorpayCustomerId :: "string option"

definition getSubscriptionInfo :: "env \<Rightarrow> oid \<Rightarrow> world \<Rightarrow> subscription_info option" where
  "getSubscriptionInfo ev userId w =
     (case find (\<lambda>u. u_id u = userId) (users w) of
        None \<Rightarrow> None
      | Some usr \<Rightarrow>
          Some \<lparr>i_status = subscriptionStatus usr,
                i_expiry = subscriptionExpiry usr,
                i_isActive =
                  (subscriptionStatus usr \<in> set [''active'', ''trial''] \<and>
                   (case subscriptionExpiry usr of None \<Rightarrow> True | Some expiry \<Rightarrow> now ev < expiry)),
                i_razorpayCustomerId = u_razorpayCustomerId usr\<rparr>)"

section \<open>Payment model\<close>

definition paymentStatusEnum :: "string list" where
  "paymentStatusEnum = [''pending'', ''captured'', ''failed'', ''refunded'', ''partially_refunded'']"

definition paymentMethodEnum :: "string list" where
  "paymentMethodEnum = [''card'', ''netbanking'', ''wallet'', ''upi'', ''emi'']"

definition currencyEnum :: "string list" where
  "currencyEnum = [''INR'', ''USD'', ''EUR'']"

text \<open>The validators of the payment schema: required fields, \<open>min: 0\<close> and the enums.\<close>

definition paymentSchema :: "payment \<Rightarrow> bool" where
  "paymentSchema p \<longleftrightarrow>
     razorpayPaymentId p \<noteq> [] \<and> razorpayOrderId p \<noteq> [] \<and> 0 \<le> p_amount p \<and>
     p_currency p \<in> set currencyEnum \<and> p_status p \<in> set paymentStatusEnum \<and>
     paymentMethod_type p \<in> set paymentMethodEnum \<and> p_description p \<noteq> []"

text \<open>The id of a new document: one that no document of the collection has.\<close>

definition freshId :: "oid list \<Rightarrow> oid" where
  "freshId ids = Suc (fold max ids 0)"

text \<open>
  \<open>createPayment(paymentData)\<close>: a receipt number is made up when none is given, and the
  document is inserted. The insert is refused by a validator, or by one of the two unique
  indexes (\<open>razorpayPaymentId\<close>, \<open>receipt.number\<close>).
\<close>

definition createPayment :: "env \<Rightarrow> payment \<Rightarrow> payment io" where
  "createPayment ev paymentData w =
     (let paymentData' =
            (if receipt_number paymentData = [] then paymentData\<lparr>receipt_number := receipt ev\<rparr>
             else paymentData);
          doc = paymentData'\<lparr>p_id := freshId (map p_id (payments w))\<rparr>
      in if \<not> paymentSchema doc then (Inl (ValidationError ''payments''), w)
         else if razorpayPaymentId doc \<in> set (map razorpayPaymentId (payments w))
         then (Inl (DuplicateKeyError ''razorpayPaymentId''), w)
         else if receipt_number doc \<in> set (map receipt_number (payments w))
         then (Inl (DuplicateKeyError ''receipt.number''), w)
         else (Inr doc, w\<lparr>payments := payments w @ [doc]\<rparr>))"

text \<open>
  \<open>updatePaymentStatus(paymentId, status, additionalData = {})\<close>; \<open>additionalData\<close> is the
  assignment \<open>Object.assign(payment, additionalData)\<close> makes.
\<close>

definition updatePaymentStatus ::
  "env \<Rightarrow> oid \<Rightarrow> string \<Rightarrow> (payment \<Rightarrow> payment) \<Rightarrow> payment io" where
  "updatePaymentStatus ev paymentId status additionalData w =
     (case find (\<lambda>p. p_id p = paymentId) (payments w) of
        None \<Rightarrow> (Inl (APIError ''Payment not found'' 404), w)
      | Some pay \<Rightarrow>
          let oldStatus = p_status pay;
              pay1 = pay\<lparr>p_status := status\<rparr>;
              pay2 = (if status = ''captured'' then pay1\<lparr>paidAt := Some (now ev)\<rparr>
                      else if status = ''failed'' then pay1\<lparr>failedAt := Some (now ev)\<rparr>
                      else pay1);
              pay3 = additionalData pay2;
              pay4 = pay3\<lparr>p_notes := p_notes pay3 @
                       [\<lparr>content = ''Payment status changed from '' @ oldStatus @ '' to '' @ status,
                         createdAt = now ev\<rparr>]\<rparr>
          in if paymentSchema pay4
             then (Inr pay4,
                   w\<lparr>payments := map (\<lambda>p. if p_id p = paymentId then pay4 else p) (payments w)\<rparr>)
             else (Inl (ValidationError ''payments''), w))"

text \<open>\<open>paymentRecord.addNote(content)\<close> on the handler's copy: the note is appended.\<close>

definition addNote :: "env \<Rightarrow> oid \<Rightarrow> string \<Rightarrow> unit io" where
  "addNote ev paymentId c w =
     (Inr (),
      w\<lparr>payments :=
          map (\<lambda>p. if p_id p = paymentId
                    then p\<lparr>p_notes := p_notes p @ [\<lparr>content = c, createdAt = now ev\<rparr>]\<rparr> else p)
              (payments w)\<rparr>)"

section \<open>Notification model\<close>

text \<open>What the validators of the notification schema answer: required fields and enums.\<close>

definition notificationTypeEnum :: "string list" where
  "notificationTypeEnum = [''info'', ''success'', ''warning'', ''error'', ''project_update'',
     ''estimate_ready'', ''moodboard_shared'', ''milestone_completed'', ''payment_received'',
     ''client_message'']"

definition relatedEntityEnum :: "string list" where
  "relatedEntityEnum = [''project'', ''estimate'', ''moodboard'', ''lead'', ''client'', ''milestone'']"

definition priorityEnum :: "string list" where
  "priorityEnum = [''low'', ''medium'', ''high'', ''urgent'']"

definition notificationSchema :: "notification \<Rightarrow> error option" where
  "notificationSchema n =
     (if n_title n = [] then Some (ValidationError ''title'')
      else if n_message n = [] then Some (ValidationError ''message'')
      else if n_type n \<notin> set notificationTypeEnum then Some (ValidationError ''type'')
      else if relatedEntity_type n \<notin> set relatedEntityEnum
      then Some (ValidationError ''relatedEntity.type'')
      else if n_priority n \<notin> set priorityEnum then Some (ValidationError ''priority'')
      else None)"

text \<open>
  \<open>createNotification(notificationData)\<close> is \<open>this.create(notificationData)\<close>: the document
  is validated against the schema and inserted, or the validation error is thrown.
\<close>

definition createNotification :: "notification \<Rightarrow> notification io" where
  "createNotification notificationData w =
     (case notificationSchema notificationData of
        Some e \<Rightarrow> (Inl e, w)
      | None \<Rightarrow>
          let doc = notificationData\<lparr>n_id := freshId (map n_id (notifications w))\<rparr>
          in (Inr doc, w\<lparr>notifications := notifications w @ [doc]\<rparr>))"

section \<open>Razorpay signature check\<close>

text \<open>
  \<open>verifyWebhookSignature(body, signature)\<close>: the hex HMAC-SHA256 of the body under the
  webhook secret is compared with the signature by \<open>===\<close>; when computing it throws, the
  answer is false. The digest is the crypto library's and is a parameter here: \<open>None\<close> is
  its throwing.
\<close>

definition verifyWebhookSignature ::
  "(string \<Rightarrow> string \<Rightarrow> string option) \<Rightarrow> string \<Rightarrow> string \<Rightarrow> string \<Rightarrow> bool" where
  "verifyWebhookSignature hmacSha256Hex secret body signature =
     (case hmacSha256Hex secret body of
        None \<Rightarrow> False
      | Some expectedSignature \<Rightarrow> expectedSignature = signature)"

section \<open>Razorpay webhook service\<close>

text \<open>Payment captured: only a payment that is already stored is touched.\<close>

definition handlePaymentCaptured :: "env \<Rightarrow> webhook_data \<Rightarrow> unit io" where
  "handlePaymentCaptured ev data w =
     (case d_payment data of
        None \<Rightarrow> (Inl (TypeError ''payment''), w)
      | Some payment \<Rightarrow>
          (case find (\<lambda>p. razorpayPaymentId p = pp_id payment) (payments w) of
             None \<Rightarrow> (Inr (), w)
           | Some paymentRecord \<Rightarrow>
               (await (updatePaymentStatus ev (p_id paymentRecord) ''captured''
                    (\<lambda>p. p\<lparr>paidAt := Some (created_at payment * 1000),
                          paymentMethod_type := pp_method payment,
                          paymentMethod_card := card payment\<rparr>))
                (\<lambda>_. await (addNote ev (p_id paymentRecord) ''Payment captured successfully'')
                (\<lambda>_. await (createNotification
                    \<lparr>n_id = 0, n_title = ''Payment Successful'',
                     n_message = ''Your payment of '' @ rupees ev (pp_amount payment) @
                       '' has been processed successfully'',
                     n_type = ''success'', n_recipient = p_user paymentRecord,
                     relatedEntity_type = ''payment'', relatedEntity_id = p_id paymentRecord,
                     n_priority = ''high''\<rparr>)
                (\<lambda>_. resolve ())))) w))"

text \<open>Payment failed.\<close>

definition handlePaymentFailed :: "env \<Rightarrow> webhook_data \<Rightarrow> unit io" where
  "handlePaymentFailed ev data w =
     (case d_payment data of
        None \<Rightarrow> (Inl (TypeError ''payment''), w)
      | Some payment \<Rightarrow>
          (case find (\<lambda>p. razorpayPaymentId p = pp_id payment) (payments w) of
             None \<Rightarrow> (Inr (), w)
           | Some paymentRecord \<Rightarrow>
               (await (updatePaymentStatus ev (p_id paymentRecord) ''failed''
                    (\<lambda>p. p\<lparr>failedAt := Some (created_at payment * 1000),
                          p_error := Some \<lparr>e_code = error_code payment,
                            e_description = error_description payment,
                            e_source = error_source payment, e_step = error_step payment,
                            e_reason = error_reason payment\<rparr>\<rparr>))
                (\<lambda>_. await (addNote ev (p_id paymentRecord)
                    (''Payment failed: '' @ error_description payment))
                (\<lambda>_. await (createNotification
                    \<lparr>n_id = 0, n_title = ''Payment Failed'',
                     n_message = ''Your payment of '' @ rupees ev (pp_amount payment) @
                       '' failed. Please try again.'',
                     n_type = ''error'', n_recipient = p_user paymentRecord,
                     relatedEntity_type = ''payment'', relatedEntity_id = p_id paymentRecord,
                     n_priority = ''high''\<rparr>)
                (\<lambda>_. resolve ())))) w))"

text \<open>Subscription activated.\<close>

definition handleSubscriptionActivated :: "env \<Rightarrow> webhook_data \<Rightarrow> unit io" where
  "handleSubscriptionActivated ev data w =
     (case d_subscription data of
        None \<Rightarrow> (Inl (TypeError ''subscription''), w)
      | Some subscription \<Rightarrow>
          (case find (\<lambda>s. razorpaySubscriptionId s = sp_id subscription) (subscriptions w) of
             None \<Rightarrow> (Inr (), w)
           | Some subscriptionRecord \<Rightarrow>
               (await (updateSubscriptionStatus ev (s_id subscriptionRecord) ''active'' None)
                (\<lambda>_. await (User_updateSubscriptionStatus (s_user subscriptionRecord) ''active''
                    (Some (current_end subscription * 1000)))
                (\<lambda>_. await (saveChanges (s_id subscriptionRecord) (\<lambda>s. s)
                    \<lparr>h_action = ''activated'', h_date = now ev,
                     h_details = ''Subscription activated''\<rparr>)
                (\<lambda>_. await (createNotification
                    \<lparr>n_id = 0, n_title = ''Subscription Activated'',
                     n_message = ''Your subscription has been activated successfully'',
                     n_type = ''success'', n_recipient = s_user subscriptionRecord,
                     relatedEntity_type = ''subscription'',
                     relatedEntity_id = s_id subscriptionRecord,
                     n_priority = ''high''\<rparr>)
                (\<lambda>_. resolve ()))))) w))"

text \<open>Subscription completed.\<close>

definition handleSubscriptionCompleted :: "env \<Rightarrow> webhook_data \<Rightarrow> unit io" where
  "handleSubscriptionCompleted ev data w =
     (case d_subscription data of
        None \<Rightarrow> (Inl (TypeError ''subscription''), w)
      | Some subscription \<Rightarrow>
          (case find (\<lambda>s. razorpaySubscriptionId s = sp_id subscription) (subscriptions w) of
             None \<Rightarrow> (Inr (), w)
           | Some subscriptionRecord \<Rightarrow>
               (await (updateSubscriptionStatus ev (s_id subscriptionRecord) ''completed'' None)
                (\<lambda>_. await (User_updateSubscriptionStatus (s_user subscriptionRecord) ''expired'' None)
                (\<lambda>_. await (saveChanges (s_id subscriptionRecord) (\<lambda>s. s)
                    \<lparr>h_action = ''completed'', h_date = now ev,
                     h_details = ''Subscription completed''\<rparr>)
                (\<lambda>_. await (createNotification
                    \<lparr>n_id = 0, n_title = ''Subscription Completed'',
                     n_message = ''Your subscription has completed. Please renew to continue using '' @
                       ''premium features.'',
                     n_type = ''warning'', n_recipient = s_user subscriptionRecord,
                     relatedEntity_type = ''subscription'',
                     relatedEntity_id = s_id subscriptionRecord,
                     n_priority = ''high''\<rparr>)
                (\<lambda>_. resolve ()))))) w))"

text \<open>Subscription cancelled.\<close>

definition handleSubscriptionCancelled :: "env \<Rightarrow> webhook_data \<Rightarrow> unit io" where
  "handleSubscriptionCancelled ev data w =
     (case d_subscription data of
        None \<Rightarrow> (Inl (TypeError ''subscription''), w)
      | Some subscription \<Rightarrow>
          (case find (\<lambda>s. razorpaySubscriptionId s = sp_id subscription) (subscriptions w) of
             None \<Rightarrow> (Inr (), w)
           | Some subscriptionRecord \<Rightarrow>
               (await (updateSubscriptionStatus ev (s_id subscriptionRecord) ''cancelled'' None)
                (\<lambda>_. await (User_updateSubscriptionStatus (s_user subscriptionRecord) ''cancelled'' None)
                (\<lambda>_. await (saveChanges (s_id subscriptionRecord) (\<lambda>s. s)
                    \<lparr>h_action = ''cancelled'', h_date = now ev,
                     h_details = ''Subscription cancelled via Razorpay''\<rparr>)
                (\<lambda>_. await (createNotification
                    \<lparr>n_id = 0, n_title = ''Subscription Cancelled'',
                     n_message = ''Your subscription has been cancelled. You can still use the service '' @
                       ''until the current billing period ends.'',
                     n_type = ''warning'', n_recipient = s_user subscriptionRecord,
                     relatedEntity_type = ''subscription'',
                     relatedEntity_id = s_id subscriptionRecord,
                     n_priority = ''medium''\<rparr>)
                (\<lambda>_. resolve ()))))) w))"

text \<open>Subscription paused.\<close>

definition handleSubscriptionPaused :: "env \<Rightarrow> webhook_data \<Rightarrow> unit io" where
  "handleSubscriptionPaused ev data w =
     (case d_subscription data of
        None \<Rightarrow> (Inl (TypeError ''subscription''), w)
      | Some subscription \<Rightarrow>
          (case find (\<lambda>s. razorpaySubscriptionId s = sp_id subscription) (subscriptions w) of
             None \<Rightarrow> (Inr (), w)
           | Some subscriptionRecord \<Rightarrow>
               (await (updateSubscriptionStatus ev (s_id subscriptionRecord) ''paused'' None)
                (\<lambda>_. await (saveChanges (s_id subscriptionRecord) (\<lambda>s. s)
                    \<lparr>h_action = ''paused'', h_date = now ev,
                     h_details = ''Subscription paused''\<rparr>)
                (\<lambda>_. await (createNotification
                    \<lparr>n_id = 0, n_title = ''Subscription Paused'',
                     n_message = ''Your subscription has been paused. You can resume it anytime.'',
                     n_type = ''info'', n_recipient = s_user subscriptionRecord,
                     relatedEntity_type = ''subscription'',
                     relatedEntity_id = s_id subscriptionRecord,
                     n_priority = ''medium''\<rparr>)
                (\<lambda>_. resolve ())))) w))"

text \<open>Subscription resumed.\<close>

definition handleSubscriptionResumed :: "env \<Rightarrow> webhook_data \<Rightarrow> unit io" where
  "handleSubscriptionResumed ev data w =
     (case d_subscription data of
        None \<Rightarrow> (Inl (TypeError ''subscription''), w)
      | Some subscription \<Rightarrow>
          (case find (\<lambda>s. razorpaySubscriptionId s = sp_id subscription) (subscriptions w) of
             None \<Rightarrow> (Inr (), w)
           | Some subscriptionRecord \<Rightarrow>
               (await (updateSubscriptionStatus ev (s_id subscriptionRecord) ''active'' None)
                (\<lambda>_. await (User_updateSubscriptionStatus (s_user subscriptionRecord) ''active''
                    (Some (current_end subscription * 1000)))
                (\<lambda>_. await (saveChanges (s_id subscriptionRecord) (\<lambda>s. s)
                    \<lparr>h_action = ''resumed'', h_date = now ev,
                     h_details = ''Subscription resumed''\<rparr>)
                (\<lambda>_. await (createNotification
                    \<lparr>n_id = 0, n_title = ''Subscription Resumed'',
                     n_message = ''Your subscription has been resumed successfully.'',
                     n_type = ''success'', n_recipient = s_user subscriptionRecord,
                     relatedEntity_type = ''subscription'',
                     relatedEntity_id = s_id subscriptionRecord,
                     n_priority = ''medium''\<rparr>)
                (\<lambda>_. resolve ()))))) w))"

text \<open>Subscription halted (payment failed).\<close>

definition handleSubscriptionHalted :: "env \<Rightarrow> webhook_data \<Rightarrow> unit io" where
  "handleSubscriptionHalted ev data w =
     (case d_subscription data of
        None \<Rightarrow> (Inl (TypeError ''subscription''), w)
      | Some subscription \<Rightarrow>
          (case find (\<lambda>s. razorpaySubscriptionId s = sp_id subscription) (subscriptions w) of
             None \<Rightarrow> (Inr (), w)
           | Some subscriptionRecord \<Rightarrow>
               (await (updateSubscriptionStatus ev (s_id subscriptionRecord) ''past_due'' None)
                (\<lambda>_. await (saveChanges (s_id subscriptionRecord) (\<lambda>s. s)
                    \<lparr>h_action = ''halted'', h_date = now ev,
                     h_details = ''Subscription halted due to payment failure''\<rparr>)
                (\<lambda>_. await (createNotification
                    \<lparr>n_id = 0, n_title = ''Payment Failed - Subscription Halted'',
                     n_message = ''Your subscription has been halted due to payment failure. Please '' @
                       ''update your payment method.'',
                     n_type = ''error'', n_recipient = s_user subscriptionRecord,
                     relatedEntity_type = ''subscription'',
                     relatedEntity_id = s_id subscriptionRecord,
                     n_priority = ''high''\<rparr>)
                (\<lambda>_. resolve ())))) w))"

text \<open>Subscription pending.\<close>

definition handleSubscriptionPending :: "env \<Rightarrow> webhook_data \<Rightarrow> unit io" where
  "handleSubscriptionPending ev data w =
     (case d_subscription data of
        None \<Rightarrow> (Inl (TypeError ''subscription''), w)
      | Some subscription \<Rightarrow>
          (case find (\<lambda>s. razorpaySubscriptionId s = sp_id subscription) (subscriptions w) of
             None \<Rightarrow> (Inr (), w)
           | Some subscriptionRecord \<Rightarrow>
               (await (updateSubscriptionStatus ev (s_id subscriptionRecord) ''trialing'' None)
                (\<lambda>_. await (saveChanges (s_id subscriptionRecord) (\<lambda>s. s)
                    \<lparr>h_action = ''pending'', h_date = now ev,
                     h_details = ''Subscription pending activation''\<rparr>)
                (\<lambda>_. resolve ()))) w))"

text \<open>
  Subscription charged (recurring payment): the dates and a \<open>renewed\<close> entry are saved,
  the user is marked active, the payment is created if none has its id, and a
  notification is created. The payment of the body is first read for the text of the
  entry, before anything is saved.
\<close>

definition handleSubscriptionCharged :: "env \<Rightarrow> webhook_data \<Rightarrow> unit io" where
  "handleSubscriptionCharged ev data w =
     (case d_subscription data of
        None \<Rightarrow> (Inl (TypeError ''subscription''), w)
      | Some subscription \<Rightarrow>
          (case find (\<lambda>s. razorpaySubscriptionId s = sp_id subscription) (subscriptions w) of
             None \<Rightarrow> (Inr (), w)
           | Some subscriptionRecord \<Rightarrow>
               (case d_payment data of
                  None \<Rightarrow> (Inl (TypeError ''payment''), w)
                | Some payment \<Rightarrow>
                    (await (saveChanges (s_id subscriptionRecord)
                         (\<lambda>s. s\<lparr>nextBillingDate := Some (current_end subscription * 1000),
                               endDate := Some (current_end subscription * 1000)\<rparr>)
                         \<lparr>h_action = ''renewed'', h_date = now ev,
                          h_details = ''Subscription renewed. Payment: '' @
                            rupees ev (pp_amount payment)\<rparr>)
                     (\<lambda>_. await (User_updateSubscriptionStatus (s_user subscriptionRecord) ''active''
                         (Some (current_end subscription * 1000)))
                     (\<lambda>_. await
                         (\<lambda>w'. case find (\<lambda>p. razorpayPaymentId p = pp_id payment) (payments w') of
                                  Some existingPayment \<Rightarrow> (Inr (), w')
                                | None \<Rightarrow>
                                    await (createPayment ev
                                      \<lparr>p_id = 0, p_user = s_user subscriptionRecord,
                                       p_subscription = Some (s_id subscriptionRecord),
                                       razorpayPaymentId = pp_id payment,
                                       razorpayOrderId = order_id payment,
                                       p_amount = of_int (pp_amount payment) / 100,
                                       p_currency =
                                         (case pp_currency payment of
                                            None \<Rightarrow> ''INR'' | Some c \<Rightarrow> c),
                                       p_status = ''captured'',
                                       paymentMethod_type = pp_method payment,
                                       paymentMethod_card = None,
                                       paidAt = Some (created_at payment * 1000),
                                       failedAt = None,
                                       p_description = ''Recurring subscription payment'',
                                       p_error = None, p_notes = [],
                                       receipt_number = []\<rparr>)
                                      (\<lambda>_. resolve ()) w')
                     (\<lambda>_. await (createNotification
                         \<lparr>n_id = 0, n_title = ''Subscription Renewed'',
                          n_message = ''Your subscription has been renewed. Payment of '' @
                            rupees ev (pp_amount payment) @ '' processed.'',
                          n_type = ''success'', n_recipient = s_user subscriptionRecord,
                          relatedEntity_type = ''subscription'',
                          relatedEntity_id = s_id subscriptionRecord,
                          n_priority = ''medium''\<rparr>)
                     (\<lambda>_. resolve ()))))) w)))"

text \<open>Subscription updated.\<close>

definition handleSubscriptionUpdated :: "env \<Rightarrow> webhook_data \<Rightarrow> unit io" where
  "handleSubscriptionUpdated ev data w =
     (case d_subscription data of
        None \<Rightarrow> (Inl (TypeError ''subscription''), w)
      | Some subscription \<Rightarrow>
          (case find (\<lambda>s. razorpaySubscriptionId s = sp_id subscription) (subscriptions w) of
             None \<Rightarrow> (Inr (), w)
           | Some subscriptionRecord \<Rightarrow>
               (await (saveChanges (s_id subscriptionRecord)
                    (\<lambda>s. s\<lparr>nextBillingDate := Some (current_end subscription * 1000),
                          endDate := Some (current_end subscription * 1000)\<rparr>)
                    \<lparr>h_action = ''updated'', h_date = now ev,
                     h_details = ''Subscription updated''\<rparr>)
                (\<lambda>_. await (User_updateSubscriptionStatus (s_user subscriptionRecord) ''active''
                    (Some (current_end subscription * 1000)))
                (\<lambda>_. resolve ()))) w))"

text \<open>
  \<open>handleWebhook(event, data)\<close>: the handler of the event is run; an event without a
  handler is logged and ignored; an error of the handler is logged and thrown again. No
  signature reaches this function.
\<close>

definition handleWebhook :: "env \<Rightarrow> string \<Rightarrow> webhook_data \<Rightarrow> unit io" where
  "handleWebhook ev event data =
     (if event = ''payment.captured'' then handlePaymentCaptured ev data
      else if event = ''payment.failed'' then handlePaymentFailed ev data
      else if event = ''subscription.activated'' then handleSubscriptionActivated ev data
      else if event = ''subscription.charged'' then handleSubscriptionCharged ev data
      else if event = ''subscription.completed'' then handleSubscriptionCompleted ev data
      else if event = ''subscription.cancelled'' then handleSubscriptionCancelled ev data
      else if event = ''subscription.paused'' then handleSubscriptionPaused ev data
      else if event = ''subscription.resumed'' then handleSubscriptionResumed ev data
      else if event = ''subscription.halted'' then handleSubscriptionHalted ev data
      else if event = ''subscription.pending'' then handleSubscriptionPending ev data
      else if event = ''subscription.updated'' then handleSubscriptionUpdated ev data
      else resolve ())"

text \<open>The gateway delivering one event again and again, whatever each delivery answers.\<close>

fun deliveries :: "env list \<Rightarrow> string \<Rightarrow> webhook_data \<Rightarrow> world \<Rightarrow> world" where
  "deliveries [] event data w = w"
| "deliveries (ev # evs) event data w =
     deliveries evs event data (snd (handleWebhook ev event data w))"

section \<open>A subscription to run the scenarios on\<close>

text \<open>
  One trialing subscription, created at time 1000 from a plan with two projects, of user 7;
  no payment and no notification yet.
\<close>

definition scenario_subscription :: subscription where
  "scenario_subscription =
     \<lparr>s_id = 1, s_user = 7, s_plan = 3, razorpaySubscriptionId = ''sub_A'',
      s_razorpayCustomerId = ''cust_A'', s_status = ''trialing'', billingCycle = ''monthly'',
      startDate = 1000, endDate = Some 5000, nextBillingDate = Some 5000, cancelledAt = None,
      usage = [(''teams'', \<lparr>current = 0, limit = 1\<rparr>),
               (''users'', \<lparr>current = 3, limit = 5\<rparr>),
               (''projects'', \<lparr>current = 0, limit = 2\<rparr>),
               (''clients'', \<lparr>current = 0, limit = 50\<rparr>),
               (''leads'', \<lparr>current = 0, limit = - 1\<rparr>),
               (''storage'', \<lparr>current = 0, limit = 5\<rparr>)],
      features = [(''aiEstimates'', True), (''apiAccess'', False)],
      history = [\<lparr>h_action = ''created'', h_date = 1000, h_details = ''Subscription created''\<rparr>],
      cancellation = None\<rparr>"

definition scenario_user :: user where
  "scenario_user =
     \<lparr>u_id = 7, firstName = ''Asha'', lastName = ''Rao'', email = ''asha@example.com'',
      u_razorpayCustomerId = Some ''cust_A'', subscriptionStatus = ''trial'',
      subscriptionExpiry = None\<rparr>"

definition scenario_world :: world where
  "scenario_world =
     \<lparr>subscriptions = [scenario_subscription], users = [scenario_user], payments = [],
      notifications = []\<rparr>"

text \<open>
  A request at time 2000 and its webhook body: the
  subscription of the scenario, period end 9000 s, and a card payment of 2999 paise made
  at 1 s.
\<close>

definition scenario_env :: env where
  "scenario_env =
     \<lparr>now = 2000, receipt = ''RCP-2000-K3J9X2A1B'', rupees = (\<lambda>paise. ''Rs 29.99'')\<rparr>"

definition scenario_data :: webhook_data where
  "scenario_data =
     \<lparr>d_payment = Some
        \<lparr>pp_id = ''pay_X'', order_id = ''order_X'', pp_amount = 2999,
         pp_currency = Some ''INR'', pp_method = ''card'', created_at = 1, card = None,
         error_code = [], error_description = [], error_source = [], error_step = [],
         error_reason = []\<rparr>,
      d_subscription = Some \<lparr>sp_id = ''sub_A'', current_end = 9000\<rparr>\<rparr>"

text \<open>The same world after the subscription was cancelled at time 1500.\<close>

definition scenario_cancelled :: world where
  "scenario_cancelled =
     scenario_world\<lparr>subscriptions :=
       [scenario_subscription\<lparr>s_status := ''cancelled'', cancelledAt := Some 1500\<rparr>]\<rparr>"

text \<open>A webhook body whose subscription and payment the collections do not know.\<close>

definition scenario_orphan :: webhook_data where
  "scenario_orphan =
     \<lparr>d_payment = Some
        \<lparr>pp_id = ''pay_unknown'', order_id = ''order_Y'', pp_amount = 500,
         pp_currency = Some ''INR'', pp_method = ''upi'', created_at = 1, card = None,
         error_code = [], error_description = [], error_source = [], error_step = [],
         error_reason = []\<rparr>,
      d_subscription = Some \<lparr>sp_id = ''sub_unknown'', current_end = 9000\<rparr>\<rparr>"

text \<open>A later request, at time 6000.\<close>

definition scenario_env_late :: env where
  "scenario_env_late = scenario_env\<lparr>now := 6000\<rparr>"

section \<open>Properties of the usage ledger\<close>

lemma findById_id: "findById i xs = Some s \<Longrightarrow> s_id s = i"
  by (auto simp: findById_def find_Some_iff)

lemma findById_replace:
  "findById i xs = Some s \<Longrightarrow> s_id doc = i \<Longrightarrow>
   findById i (map (\<lambda>s. if s_id s = s_id doc then doc else s) xs) = Some doc"
  by (induction xs) (auto simp: findById_def split: if_splits)

lemma map_of_bump:
  "map_of (map (\<lambda>(k, r). if k = rt then (k, f r) else (k, r)) us) rt = map_option f (map_of us rt)"
  by (induction us) auto

lemma usageOf_updateUsage:
  assumes "usageOf sid rt w = Some r"
  shows "usageOf sid rt (snd (updateUsage sid rt inc w)) = Some (r\<lparr>current := current r + inc\<rparr>)"
proof -
  from assms obtain s where s: "findById sid (subscriptions w) = Some s" "map_of (usage s) rt = Some r"
    by (auto simp: usageOf_def split: option.splits)
  let ?s' = "s\<lparr>usage := map (\<lambda>(k, r). if k = rt then (k, r\<lparr>current := current r + inc\<rparr>) else (k, r)) (usage s)\<rparr>"
  have id: "s_id ?s' = sid" using findById_id [OF s(1)] by simp
  have "findById sid (subscriptions (save ?s' w)) = Some ?s'"
    using findById_replace [OF s(1) id] by (simp add: save_def)
  then show ?thesis using s
    by (simp add: usageOf_def updateUsage_def Let_def map_of_bump)
qed

lemma int_step: "(a::rat) \<in> \<int> \<Longrightarrow> b \<in> \<int> \<Longrightarrow> a < b \<longleftrightarrow> a + 1 \<le> b"
  by (auto elim!: Ints_cases)


lemma checkAndReserve_allowed:
  assumes "usageOf sid rt w = Some r" "limit r \<noteq> - 1" "current r < limit r"
  shows "fst (checkAndReserve sid rt amt w) =
           \<lparr>allowed = True, check_reason = ''Within limit'', check_current = None,
            check_limit = None\<rparr>"
    and "usageOf sid rt (snd (checkAndReserve sid rt amt w)) = Some (r\<lparr>current := current r + amt\<rparr>)"
proof -
  have c: "checkUsageLimit sid rt w =
      \<lparr>allowed = True, check_reason = ''Within limit'', check_current = None, check_limit = None\<rparr>"
    using assms by (auto simp: usageOf_def checkUsageLimit_def split: option.splits)
  show "fst (checkAndReserve sid rt amt w) =
           \<lparr>allowed = True, check_reason = ''Within limit'', check_current = None,
            check_limit = None\<rparr>"
    by (simp add: checkAndReserve_def c)
  show "usageOf sid rt (snd (checkAndReserve sid rt amt w)) = Some (r\<lparr>current := current r + amt\<rparr>)"
    using usageOf_updateUsage [OF assms(1)] by (simp add: checkAndReserve_def c)
qed

lemma checkAndReserve_denied:
  assumes "usageOf sid rt w = Some r" "limit r \<noteq> - 1" "\<not> current r < limit r"
  shows "checkAndReserve sid rt amt w =
           (\<lparr>allowed = False, check_reason = ''Usage limit exceeded'',
             check_current = Some (current r), check_limit = Some (limit r)\<rparr>, w)"
  using assms
  by (auto simp: usageOf_def checkAndReserve_def checkUsageLimit_def split: option.splits)

lemma reserveTimes_within_limit:
  "usageOf sid rt w = Some r \<Longrightarrow> limit r \<noteq> - 1 \<Longrightarrow> current r \<in> \<int> \<Longrightarrow> limit r \<in> \<int> \<Longrightarrow>
   current r \<le> limit r \<Longrightarrow>
   \<exists>r'. usageOf sid rt (reserveTimes n sid rt w) = Some r' \<and> limit r' = limit r \<and>
        current r' \<le> limit r'"
proof (induction n arbitrary: w r)
  case 0
  then show ?case by simp
next
  case (Suc n)
  show ?case
  proof (cases "current r < limit r")
    case True
    let ?w = "snd (checkAndReserve sid rt 1 w)"
    let ?r = "r\<lparr>current := current r + 1\<rparr>"
    have u: "usageOf sid rt ?w = Some ?r"
      using checkAndReserve_allowed(2) [OF Suc.prems(1,2) True] .
    have le: "current ?r \<le> limit ?r"
      using int_step [OF Suc.prems(3,4)] True by simp
    have "\<exists>r'. usageOf sid rt (reserveTimes n sid rt ?w) = Some r' \<and> limit r' = limit ?r \<and>
        current r' \<le> limit r'"
      using Suc.prems by (intro Suc.IH [OF u _ _ _ le]) auto
    then show ?thesis by simp
  next
    case False
    have "snd (checkAndReserve sid rt 1 w) = w"
      using checkAndReserve_denied [OF Suc.prems(1,2) False] by simp
    then show ?thesis using Suc.IH [OF Suc.prems] by simp
  qed
qed

text \<open>
  Claim C1, as the code has it. For a subscription whose counter for a resource type has
  an integral \<open>current\<close> and an integral \<open>limit\<close> other than \<open>-1\<close>, a caller that reserves
  one unit with no other request between its two calls (\<open>checkUsageLimit\<close>, then
  \<open>updateUsage\<close> when allowed) increments \<open>current\<close> exactly when \<open>current + 1\<close> does not
  exceed \<open>limit\<close>; the check then answers allowed, "Within limit", and the stored counter
  is the new \<open>current\<close>. Otherwise the check answers denied with \<open>{current, limit}\<close> and
  nothing is written. So \<open>current \<le> limit\<close> survives any number of unit reservations made
  strictly one after the other. In the scenario \<open>limit = 2\<close>, \<open>current = 0\<close>, two such
  reservations are allowed, \<open>current\<close> becomes 2, and the third is denied with
  \<open>{current: 2, limit: 2}\<close>.
\<close>

theorem reserve_one_unit:
  assumes "usageOf sid rt w = Some r" and "limit r \<noteq> - 1"
    and "current r \<in> \<int>" and "limit r \<in> \<int>"
  shows "(if current r + 1 \<le> limit r
          then fst (checkAndReserve sid rt 1 w) =
                 \<lparr>allowed = True, check_reason = ''Within limit'', check_current = None,
                  check_limit = None\<rparr> \<and>
               usageOf sid rt (snd (checkAndReserve sid rt 1 w)) =
                 Some (r\<lparr>current := current r + 1\<rparr>)
          else checkAndReserve sid rt 1 w =
                 (\<lparr>allowed = False, check_reason = ''Usage limit exceeded'',
                   check_current = Some (current r), check_limit = Some (limit r)\<rparr>, w)) \<and>
         (current r \<le> limit r \<longrightarrow>
            (\<exists>r'. usageOf sid rt (reserveTimes n sid rt w) = Some r' \<and> limit r' = limit r \<and>
               current r' \<le> limit r')) \<and>
         usageOf 1 ''projects'' scenario_world = Some \<lparr>current = 0, limit = 2\<rparr> \<and>
         allowed (fst (checkAndReserve 1 ''projects'' 1 scenario_world)) \<and>
         allowed (fst (checkAndReserve 1 ''projects'' 1
                    (reserveTimes 1 1 ''projects'' scenario_world))) \<and>
         usageOf 1 ''projects'' (reserveTimes 2 1 ''projects'' scenario_world) =
           Some \<lparr>current = 2, limit = 2\<rparr> \<and>
         checkAndReserve 1 ''projects'' 1 (reserveTimes 2 1 ''projects'' scenario_world) =
           (\<lparr>allowed = False, check_reason = ''Usage limit exceeded'',
             check_current = Some 2, check_limit = Some 2\<rparr>,
            reserveTimes 2 1 ''projects'' scenario_world)"
proof -
  have step: "current r < limit r \<longleftrightarrow> current r + 1 \<le> limit r"
    using int_step [OF assms(3,4)] .
  have a: "current r + 1 \<le> limit r \<Longrightarrow>
      fst (checkAndReserve sid rt 1 w) =
        \<lparr>allowed = True, check_reason = ''Within limit'', check_current = None,
         check_limit = None\<rparr> \<and>
      usageOf sid rt (snd (checkAndReserve sid rt 1 w)) = Some (r\<lparr>current := current r + 1\<rparr>)"
    using checkAndReserve_allowed [OF assms(1,2)] step by simp
  have b: "\<not> current r + 1 \<le> limit r \<Longrightarrow>
      checkAndReserve sid rt 1 w =
        (\<lparr>allowed = False, check_reason = ''Usage limit exceeded'',
          check_current = Some (current r), check_limit = Some (limit r)\<rparr>, w)"
    using checkAndReserve_denied [OF assms(1,2)] step by simp
  have c: "current r \<le> limit r \<Longrightarrow>
      \<exists>r'. usageOf sid rt (reserveTimes n sid rt w) = Some r' \<and> limit r' = limit r \<and>
        current r' \<le> limit r'"
    using reserveTimes_within_limit [OF assms] .
  have d: "usageOf 1 ''projects'' scenario_world = Some \<lparr>current = 0, limit = 2\<rparr>"
    by (simp add: usageOf_def findById_def scenario_world_def scenario_subscription_def)
  have e: "allowed (fst (checkAndReserve 1 ''projects'' 1 scenario_world))"
    by (simp add: checkAndReserve_def checkUsageLimit_def findById_def
        scenario_world_def scenario_subscription_def)
  have f: "allowed (fst (checkAndReserve 1 ''projects'' 1
                    (reserveTimes 1 1 ''projects'' scenario_world)))"
    by (simp add: checkAndReserve_def checkUsageLimit_def updateUsage_def findById_def save_def
        scenario_world_def scenario_subscription_def Let_def)
  have g: "usageOf 1 ''projects'' (reserveTimes 2 1 ''projects'' scenario_world) =
           Some \<lparr>current = 2, limit = 2\<rparr>"
    by (simp add: numeral_2_eq_2 usageOf_def checkAndReserve_def checkUsageLimit_def
        updateUsage_def findById_def save_def scenario_world_def scenario_subscription_def Let_def)
  have h: "checkAndReserve 1 ''projects'' 1 (reserveTimes 2 1 ''projects'' scenario_world) =
           (\<lparr>allowed = False, check_reason = ''Usage limit exceeded'',
             check_current = Some 2, check_limit = Some 2\<rparr>,
            reserveTimes 2 1 ''projects'' scenario_world)"
    by (simp add: numeral_2_eq_2 checkAndReserve_def checkUsageLimit_def updateUsage_def
        findById_def save_def scenario_world_def scenario_subscription_def Let_def)
  show ?thesis using a b c d e f g h by simp
qed

theorem reserve_one_unit_witness:
  "usageOf 1 ''teams'' scenario_world = Some \<lparr>current = 0, limit = 1\<rparr> \<and>
   fst (checkAndReserve 1 ''teams'' 1 scenario_world) =
     \<lparr>allowed = True, check_reason = ''Within limit'', check_current = None,
      check_limit = None\<rparr> \<and>
   usageOf 1 ''teams'' (snd (checkAndReserve 1 ''teams'' 1 scenario_world)) =
     Some \<lparr>current = 1, limit = 1\<rparr> \<and>
   (\<exists>r'. usageOf 1 ''teams'' (reserveTimes 5 1 ''teams'' scenario_world) = Some r' \<and>
      limit r' = 1 \<and> current r' \<le> limit r')"
proof -
  have u: "usageOf 1 ''teams'' scenario_world = Some \<lparr>current = 0, limit = 1\<rparr>"
    by (simp add: usageOf_def findById_def scenario_world_def scenario_subscription_def)
  show ?thesis
    using u reserve_one_unit [OF u, of 5] by simp
qed

text \<open>
  The check never sees the amount: with \<open>current = 0\<close> and \<open>limit = 1\<close>, reserving two units
  is allowed and leaves \<open>current = 2\<close>, above the limit. And the check and the update are
  two calls: at \<open>current = 1\<close>, \<open>limit = 2\<close> the check allows every caller that asks before
  an update is made, and the updates of two such callers leave \<open>current = 3\<close>.
\<close>

theorem reserve_amount_counterexample:
  "allowed (fst (checkAndReserve 1 ''teams'' 2 scenario_world)) \<and>
   usageOf 1 ''teams'' scenario_world = Some \<lparr>current = 0, limit = 1\<rparr> \<and>
   usageOf 1 ''teams'' (snd (checkAndReserve 1 ''teams'' 2 scenario_world)) =
     Some \<lparr>current = 2, limit = 1\<rparr> \<and>
   usageOf 1 ''projects'' (snd (updateUsage 1 ''projects'' 1 scenario_world)) =
     Some \<lparr>current = 1, limit = 2\<rparr> \<and>
   allowed (checkUsageLimit 1 ''projects'' (snd (updateUsage 1 ''projects'' 1 scenario_world))) \<and>
   usageOf 1 ''projects''
     (snd (updateUsage 1 ''projects'' 1
        (snd (updateUsage 1 ''projects'' 1
           (snd (updateUsage 1 ''projects'' 1 scenario_world)))))) =
     Some \<lparr>current = 3, limit = 2\<rparr>"
  by (simp add: usageOf_def checkAndReserve_def checkUsageLimit_def updateUsage_def
      findById_def save_def scenario_world_def scenario_subscription_def Let_def)

text \<open>
  Claim C9, as the code has it. Releasing is \<open>updateUsage\<close> with a negative increment, and
  \<open>updateUsage\<close> has no floor: for an integral \<open>current\<close> and an integral amount the stored
  \<open>current\<close> becomes exactly \<open>current - amount\<close>, which is non-negative exactly when the
  amount released is at most \<open>current\<close>.
\<close>

theorem updateUsage_no_floor:
  "usageOf sid rt w = Some r \<Longrightarrow> current r \<in> \<int> \<Longrightarrow> amt \<in> \<int> \<Longrightarrow>
   usageOf sid rt (snd (updateUsage sid rt (- amt) w)) = Some (r\<lparr>current := current r - amt\<rparr>) \<and>
   (\<forall>r'. usageOf sid rt (snd (updateUsage sid rt (- amt) w)) = Some r' \<longrightarrow>
      current r' \<in> \<int> \<and> (0 \<le> current r' \<longleftrightarrow> amt \<le> current r))"
  using usageOf_updateUsage [of sid rt w r "- amt"] by auto

theorem updateUsage_no_floor_witness:
  "usageOf 1 ''users'' scenario_world = Some \<lparr>current = 3, limit = 5\<rparr> \<and>
   (3::rat) \<in> \<int> \<and> (1::rat) \<in> \<int> \<and>
   usageOf 1 ''users'' (snd (updateUsage 1 ''users'' (- 1) scenario_world)) =
     Some \<lparr>current = 2, limit = 5\<rparr>"
proof -
  have u: "usageOf 1 ''users'' scenario_world = Some \<lparr>current = 3, limit = 5\<rparr>"
    by (simp add: usageOf_def findById_def scenario_world_def scenario_subscription_def)
  have i: "current \<lparr>current = 3, limit = 5\<rparr> \<in> \<int>" "(1::rat) \<in> \<int>" by simp_all
  show ?thesis using u updateUsage_no_floor [OF u i] by simp
qed

text \<open>Releasing one unit at \<open>current = 0\<close> stores \<open>current = -1\<close>.\<close>

theorem release_below_zero_counterexample:
  "usageOf 1 ''projects'' scenario_world = Some \<lparr>current = 0, limit = 2\<rparr> \<and>
   usageOf 1 ''projects'' (snd (updateUsage 1 ''projects'' (- 1) scenario_world)) =
     Some \<lparr>current = - 1, limit = 2\<rparr>"
  by (simp add: usageOf_def updateUsage_def findById_def save_def scenario_world_def
      scenario_subscription_def Let_def)

section \<open>Properties of the lifecycle\<close>

lemma findById_member:
  "distinct (map s_id xs) \<Longrightarrow> s \<in> set xs \<Longrightarrow> findById (s_id s) xs = Some s"
  by (induction xs) (auto simp: findById_def)

lemma find_Some_member: "find P xs = Some x \<Longrightarrow> x \<in> set xs \<and> P x"
  by (induction xs) (auto split: if_splits)

lemma findById_map:
  "findById i xs = Some s \<Longrightarrow> s_id (f s) = i \<Longrightarrow>
   findById i (map (\<lambda>x. if s_id x = i then f x else x) xs) = Some (f s)"
  by (induction xs) (auto simp: findById_def split: if_splits)

lemma findById_save:
  "findById i (subscriptions w) = Some s \<Longrightarrow> s_id doc = i \<Longrightarrow>
   findById i (subscriptions (save doc w)) = Some doc"
  using findById_map [of i "subscriptions w" s "\<lambda>_. doc"] by (simp add: save_def)

lemma find_user_map:
  "find (\<lambda>u. u_id u = i) xs = Some u \<Longrightarrow> u_id (f u) = i \<Longrightarrow>
   find (\<lambda>u. u_id u = i) (map (\<lambda>x. if u_id x = i then f x else x) xs) = Some (f u)"
  by (induction xs) (auto split: if_splits)

lemma updateSubscriptionStatus_found:
  assumes "findById sid (subscriptions w) = Some s"
  shows "updateSubscriptionStatus ev sid status details w =
     (let s' = s\<lparr>s_status := status,
                 history := history s @
                   [\<lparr>h_action = (if status = ''cancelled'' then ''cancelled'' else ''activated''),
                     h_date = now ev,
                     h_details =
                       (case details of
                          Some d \<Rightarrow> if d \<noteq> [] then d
                                    else ''Status changed from '' @ s_status s @ '' to '' @ status
                        | None \<Rightarrow> ''Status changed from '' @ s_status s @ '' to '' @ status)\<rparr>],
                 cancelledAt := (if status = ''cancelled'' then Some (now ev) else cancelledAt s)\<rparr>
      in if status \<in> set statusEnum then (Inr s', save s' w)
         else (Inl (ValidationError ''status''), w))"
  using assms
  by (simp add: updateSubscriptionStatus_def Let_def actionEnum_def)

lemma updateSubscriptionStatus_missing:
  "findById sid (subscriptions w) = None \<Longrightarrow>
   updateSubscriptionStatus ev sid status details w =
     (Inl (APIError ''Subscription not found'' 404), w)"
  by (simp add: updateSubscriptionStatus_def)

lemma updateSubscriptionStatus_Inr:
  assumes "updateSubscriptionStatus ev sid status details w = (Inr s', w')"
  shows "\<exists>s. findById sid (subscriptions w) = Some s \<and> status \<in> set statusEnum \<and>
             w' = save s' w \<and> s_id s' = sid \<and> s_status s' = status \<and>
             history s' = history s @ [last (history s')] \<and>
             h_action (last (history s')) =
               (if status = ''cancelled'' then ''cancelled'' else ''activated'')"
proof (cases "findById sid (subscriptions w)")
  case None
  then show ?thesis using assms by (simp add: updateSubscriptionStatus_missing)
next
  case (Some s)
  have id: "s_id s = sid" using Some by (rule findById_id)
  show ?thesis
    using assms id unfolding updateSubscriptionStatus_found [OF Some] Let_def
    by (auto simp: Some split: if_splits)
qed

text \<open>
  Claim C10. A call of \<open>updateSubscriptionStatus\<close> that returns has appended exactly one
  history entry, and the action of that entry is \<open>cancelled\<close> for the target status
  \<open>cancelled\<close> and \<open>activated\<close> for every other target, whatever the target is; and the
  call does return for every stored subscription and every status of the schema.
\<close>

theorem history_action_of_status_update:
  "(\<forall>s' w'. updateSubscriptionStatus ev sid status details w = (Inr s', w') \<longrightarrow>
      (\<exists>s. findById sid (subscriptions w) = Some s \<and>
           history s' = history s @ [last (history s')] \<and>
           h_action (last (history s')) =
             (if status = ''cancelled'' then ''cancelled'' else ''activated'') \<and>
           findById sid (subscriptions w') = Some s')) \<and>
   (\<forall>s. findById sid (subscriptions w) = Some s \<and> status \<in> set statusEnum \<longrightarrow>
      (\<exists>s'. updateSubscriptionStatus ev sid status details w = (Inr s', save s' w)))"
proof (intro conjI allI impI)
  fix s' w'
  assume a: "updateSubscriptionStatus ev sid status details w = (Inr s', w')"
  from updateSubscriptionStatus_Inr [OF a] obtain s where
    s: "findById sid (subscriptions w) = Some s" "w' = save s' w" "s_id s' = sid"
      "history s' = history s @ [last (history s')]"
      "h_action (last (history s')) =
         (if status = ''cancelled'' then ''cancelled'' else ''activated'')"
    by blast
  have "findById sid (subscriptions w') = Some s'"
    using findById_save [OF s(1) s(3)] s(2) by simp
  with s show "\<exists>s. findById sid (subscriptions w) = Some s \<and>
           history s' = history s @ [last (history s')] \<and>
           h_action (last (history s')) =
             (if status = ''cancelled'' then ''cancelled'' else ''activated'') \<and>
           findById sid (subscriptions w') = Some s'"
    by blast
next
  fix s
  assume "findById sid (subscriptions w) = Some s \<and> status \<in> set statusEnum"
  then show "\<exists>s'. updateSubscriptionStatus ev sid status details w = (Inr s', save s' w)"
    by (simp add: updateSubscriptionStatus_found Let_def)
qed

theorem history_action_of_status_update_witness:
  "findById 1 (subscriptions scenario_world) = Some scenario_subscription \<and>
   ''paused'' \<in> set statusEnum \<and>
   (\<exists>s'. updateSubscriptionStatus scenario_env 1 ''paused'' None scenario_world =
            (Inr s', save s' scenario_world) \<and>
          history s' = history scenario_subscription @ [last (history s')] \<and>
          h_action (last (history s')) = ''activated'' \<and> s_status s' = ''paused'')"
proof -
  have f: "findById 1 (subscriptions scenario_world) = Some scenario_subscription"
    by (simp add: findById_def scenario_world_def scenario_subscription_def)
  have e: "''paused'' \<in> set statusEnum" by (simp add: statusEnum_def)
  from history_action_of_status_update [of scenario_env 1 "''paused''" None scenario_world] f e
  obtain s' where s': "updateSubscriptionStatus scenario_env 1 ''paused'' None scenario_world =
            (Inr s', save s' scenario_world)" by blast
  with history_action_of_status_update [of scenario_env 1 "''paused''" None scenario_world] f
  have "history s' = history scenario_subscription @ [last (history s')] \<and>
          h_action (last (history s')) = ''activated''" by auto
  moreover have "s_status s' = ''paused''"
    using updateSubscriptionStatus_Inr [OF s'] by blast
  ultimately show ?thesis using f e s' by blast
qed

text \<open>
  Claim C3, as the code has it. \<open>updateSubscriptionStatus\<close> checks no edge set: for a
  stored subscription, whatever its current status, a target status of the schema is
  assigned and one history entry is appended. The call fails, and then writes nothing,
  only when the subscription is missing (NotFound) or the target is not a status of the
  schema (validation).
\<close>

theorem status_update_checks_no_edge:
  "(findById sid (subscriptions w) = None \<longrightarrow>
      updateSubscriptionStatus ev sid status details w =
        (Inl (APIError ''Subscription not found'' 404), w)) \<and>
   (\<forall>s. findById sid (subscriptions w) = Some s \<longrightarrow>
      (if status \<in> set statusEnum
       then \<exists>s'. updateSubscriptionStatus ev sid status details w = (Inr s', save s' w) \<and>
              s_status s' = status \<and> length (history s') = Suc (length (history s)) \<and>
              findById sid (subscriptions (save s' w)) = Some s'
       else updateSubscriptionStatus ev sid status details w =
              (Inl (ValidationError ''status''), w)))"
proof (intro conjI allI impI)
  assume "findById sid (subscriptions w) = None"
  then show "updateSubscriptionStatus ev sid status details w =
        (Inl (APIError ''Subscription not found'' 404), w)"
    by (rule updateSubscriptionStatus_missing)
next
  fix s
  assume s: "findById sid (subscriptions w) = Some s"
  show "if status \<in> set statusEnum
       then \<exists>s'. updateSubscriptionStatus ev sid status details w = (Inr s', save s' w) \<and>
              s_status s' = status \<and> length (history s') = Suc (length (history s)) \<and>
              findById sid (subscriptions (save s' w)) = Some s'
       else updateSubscriptionStatus ev sid status details w =
              (Inl (ValidationError ''status''), w)"
  proof (cases "status \<in> set statusEnum")
    case True
    then obtain s' where r: "updateSubscriptionStatus ev sid status details w = (Inr s', save s' w)"
      using s by (simp add: updateSubscriptionStatus_found Let_def)
    from updateSubscriptionStatus_Inr [OF r] s
    have p: "s_id s' = sid" "s_status s' = status" "history s' = history s @ [last (history s')]"
      by auto
    have "length (history s') = Suc (length (history s))"
      using arg_cong [OF p(3), of length] by simp
    moreover have "findById sid (subscriptions (save s' w)) = Some s'"
      using findById_save [OF s p(1)] .
    ultimately show ?thesis using True r p(2) by auto
  next
    case False
    then show ?thesis using s by (simp add: updateSubscriptionStatus_found Let_def)
  qed
qed

theorem status_update_checks_no_edge_witness:
  "findById 1 (subscriptions scenario_cancelled) =
     Some (scenario_subscription\<lparr>s_status := ''cancelled'', cancelledAt := Some 1500\<rparr>) \<and>
   (\<exists>s'. updateSubscriptionStatus scenario_env 1 ''trialing'' None scenario_cancelled =
            (Inr s', save s' scenario_cancelled) \<and>
          s_status s' = ''trialing'' \<and> length (history s') = 2) \<and>
   findById 2 (subscriptions scenario_cancelled) = None \<and>
   updateSubscriptionStatus scenario_env 2 ''active'' None scenario_cancelled =
     (Inl (APIError ''Subscription not found'' 404), scenario_cancelled)"
proof -
  have f: "findById 1 (subscriptions scenario_cancelled) =
     Some (scenario_subscription\<lparr>s_status := ''cancelled'', cancelledAt := Some 1500\<rparr>)"
    by (simp add: findById_def scenario_cancelled_def scenario_subscription_def)
  have n: "findById 2 (subscriptions scenario_cancelled) = None"
    by (simp add: findById_def scenario_cancelled_def scenario_subscription_def)
  have e: "''trialing'' \<in> set statusEnum" by (simp add: statusEnum_def)
  have l: "length (history (scenario_subscription\<lparr>s_status := ''cancelled'',
      cancelledAt := Some 1500\<rparr>)) = 1"
    by (simp add: scenario_subscription_def)
  show ?thesis
    using f n e l
      status_update_checks_no_edge [of 1 scenario_cancelled scenario_env "''trialing''" None]
      status_update_checks_no_edge [of 2 scenario_cancelled scenario_env "''active''" None]
    by (auto simp: numeral_2_eq_2)
qed

text \<open>A cancelled subscription is made active again, and the history says \<open>activated\<close>.\<close>

theorem cancelled_to_active_counterexample:
  "map s_status (subscriptions scenario_cancelled) = [''cancelled''] \<and>
   (\<exists>s'. fst (updateSubscriptionStatus scenario_env 1 ''active'' None scenario_cancelled) = Inr s' \<and>
          s_status s' = ''active'' \<and> length (history s') = 2) \<and>
   map s_status
     (subscriptions (snd (updateSubscriptionStatus scenario_env 1 ''active'' None scenario_cancelled))) =
     [''active''] \<and>
   map (\<lambda>s. map h_action (history s))
     (subscriptions (snd (updateSubscriptionStatus scenario_env 1 ''active'' None scenario_cancelled))) =
     [[''created'', ''activated'']]"
  by (simp add: updateSubscriptionStatus_def findById_def save_def scenario_cancelled_def
      scenario_world_def scenario_subscription_def scenario_env_def statusEnum_def actionEnum_def
      Let_def)

section \<open>What the handlers do to a stored subscription\<close>

lemma User_updateSubscriptionStatus_found:
  assumes "find (\<lambda>u. u_id u = uid) (users w) = Some u" "status \<in> set userStatusEnum"
  shows "User_updateSubscriptionStatus uid status expiry w =
     (Inr (u\<lparr>subscriptionStatus := status,
              subscriptionExpiry := (case expiry of Some d \<Rightarrow> Some d | None \<Rightarrow> subscriptionExpiry u)\<rparr>),
      w\<lparr>users := map (\<lambda>x. if u_id x = uid
                          then u\<lparr>subscriptionStatus := status,
                                 subscriptionExpiry :=
                                   (case expiry of Some d \<Rightarrow> Some d | None \<Rightarrow> subscriptionExpiry u)\<rparr>
                          else x) (users w)\<rparr>)"
  using assms by (simp add: User_updateSubscriptionStatus_def Let_def)

lemma find_razorpay_findById:
  assumes "find (\<lambda>s. razorpaySubscriptionId s = rid) xs = Some s" "distinct (map s_id xs)"
  shows "findById (s_id s) xs = Some s"
  using find_Some_member [OF assms(1)] findById_member [OF assms(2)] by simp

lemma find_razorpay_map:
  assumes "\<And>x. razorpaySubscriptionId (g x) = razorpaySubscriptionId x"
  shows "find (\<lambda>s. razorpaySubscriptionId s = k) (map g xs) =
         map_option g (find (\<lambda>s. razorpaySubscriptionId s = k) xs)"
  by (induction xs) (auto simp: assms)

text \<open>
  The notification of a subscription handler names the related entity type
  \<open>subscription\<close>, which is not in the enum of the schema: it is refused.
\<close>

lemma subscription_notification_refused:
  assumes "n_title n \<noteq> []" "n_message n \<noteq> []" "n_type n \<in> set notificationTypeEnum"
    and "relatedEntity_type n = ''subscription''"
  shows "await (createNotification n) (\<lambda>_. resolve ()) w =
           (Inl (ValidationError ''relatedEntity.type''), w)"
  using assms
  by (simp add: await_def createNotification_def notificationSchema_def relatedEntityEnum_def)

text \<open>
  The steps shared by the handlers that set a status: the status update, the update of
  the user (in three of them), the handler's own history entry, the notification.
\<close>

lemma transition_run:
  fixes ev :: env
  assumes f: "findById sid (subscriptions w) = Some s"
    and st: "status \<in> set statusEnum"
    and act: "h_action e \<in> set actionEnum"
    and n: "n_title n \<noteq> []" "n_message n \<noteq> []" "n_type n \<in> set notificationTypeEnum"
      "relatedEntity_type n = ''subscription''"
  defines "run \<equiv> await (updateSubscriptionStatus ev sid status None)
        (\<lambda>_. await (saveChanges sid (\<lambda>s. s) e)
        (\<lambda>_. await (createNotification n) (\<lambda>_. resolve ()))) w"
  shows "fst run = Inl (ValidationError ''relatedEntity.type'')"
    and "findById sid (subscriptions (snd run)) =
      Some (s\<lparr>s_status := status,
              history := history s @
                [\<lparr>h_action = (if status = ''cancelled'' then ''cancelled'' else ''activated''),
                  h_date = now ev,
                  h_details = ''Status changed from '' @ s_status s @ '' to '' @ status\<rparr>, e],
              cancelledAt := (if status = ''cancelled'' then Some (now ev) else cancelledAt s)\<rparr>)"
    and "users (snd run) = users w" and "notifications (snd run) = notifications w"
    and "payments (snd run) = payments w"
proof -
  let ?e1 = "\<lparr>h_action = (if status = ''cancelled'' then ''cancelled'' else ''activated''),
              h_date = now ev,
              h_details = ''Status changed from '' @ s_status s @ '' to '' @ status\<rparr>"
  let ?s1 = "s\<lparr>s_status := status, history := history s @ [?e1],
        cancelledAt := (if status = ''cancelled'' then Some (now ev) else cancelledAt s)\<rparr>"
  let ?w1 = "save ?s1 w"
  have sid: "s_id s = sid" using f by (rule findById_id)
  have r1: "updateSubscriptionStatus ev sid status None w = (Inr ?s1, ?w1)"
    using st by (simp add: updateSubscriptionStatus_found [OF f] Let_def)
  have f1: "findById sid (subscriptions ?w1) = Some ?s1"
    using findById_save [OF f, of ?s1] sid by simp
  let ?w2 = "?w1\<lparr>subscriptions := map (\<lambda>x. if s_id x = sid
                 then x\<lparr>history := history x @ [e]\<rparr> else x) (subscriptions ?w1)\<rparr>"
  have r2: "saveChanges sid (\<lambda>s. s) e ?w1 = (Inr (), ?w2)"
    using act by (simp add: saveChanges_def)
  have f2: "findById sid (subscriptions ?w2) = Some (?s1\<lparr>history := history ?s1 @ [e]\<rparr>)"
    using findById_map [OF f1, of "\<lambda>x. x\<lparr>history := history x @ [e]\<rparr>"] sid by simp
  have run: "run = (Inl (ValidationError ''relatedEntity.type''), ?w2)"
    unfolding run_def
    using r1 r2 subscription_notification_refused [OF n, of ?w2] by (simp add: await_def)
  show "fst run = Inl (ValidationError ''relatedEntity.type'')" by (simp add: run)
  show "findById sid (subscriptions (snd run)) =
      Some (s\<lparr>s_status := status, history := history s @ [?e1, e],
              cancelledAt := (if status = ''cancelled'' then Some (now ev) else cancelledAt s)\<rparr>)"
    using f2 by (simp add: run)
  show "users (snd run) = users w" "notifications (snd run) = notifications w"
    "payments (snd run) = payments w"
    by (simp_all add: run save_def)
qed

lemma transition_run_user:
  fixes ev :: env and expiry :: "date option"
  assumes f: "findById sid (subscriptions w) = Some s"
    and st: "status \<in> set statusEnum"
    and u: "find (\<lambda>u. u_id u = uid) (users w) = Some u"
    and ust: "ustatus \<in> set userStatusEnum"
    and act: "h_action e \<in> set actionEnum"
    and n: "n_title n \<noteq> []" "n_message n \<noteq> []" "n_type n \<in> set notificationTypeEnum"
      "relatedEntity_type n = ''subscription''"
  defines "run \<equiv> await (updateSubscriptionStatus ev sid status None)
        (\<lambda>_. await (User_updateSubscriptionStatus uid ustatus expiry)
        (\<lambda>_. await (saveChanges sid (\<lambda>s. s) e)
        (\<lambda>_. await (createNotification n) (\<lambda>_. resolve ())))) w"
  shows "fst run = Inl (ValidationError ''relatedEntity.type'')"
    and "findById sid (subscriptions (snd run)) =
      Some (s\<lparr>s_status := status,
              history := history s @
                [\<lparr>h_action = (if status = ''cancelled'' then ''cancelled'' else ''activated''),
                  h_date = now ev,
                  h_details = ''Status changed from '' @ s_status s @ '' to '' @ status\<rparr>, e],
              cancelledAt := (if status = ''cancelled'' then Some (now ev) else cancelledAt s)\<rparr>)"
    and "find (\<lambda>u. u_id u = uid) (users (snd run)) =
      Some (u\<lparr>subscriptionStatus := ustatus,
              subscriptionExpiry :=
                (case expiry of Some d \<Rightarrow> Some d | None \<Rightarrow> subscriptionExpiry u)\<rparr>)"
    and "notifications (snd run) = notifications w"
    and "payments (snd run) = payments w"
proof -
  let ?e1 = "\<lparr>h_action = (if status = ''cancelled'' then ''cancelled'' else ''activated''),
              h_date = now ev,
              h_details = ''Status changed from '' @ s_status s @ '' to '' @ status\<rparr>"
  let ?s1 = "s\<lparr>s_status := status, history := history s @ [?e1],
        cancelledAt := (if status = ''cancelled'' then Some (now ev) else cancelledAt s)\<rparr>"
  let ?w1 = "save ?s1 w"
  let ?u' = "u\<lparr>subscriptionStatus := ustatus,
              subscriptionExpiry :=
                (case expiry of Some d \<Rightarrow> Some d | None \<Rightarrow> subscriptionExpiry u)\<rparr>"
  have sid: "s_id s = sid" using f by (rule findById_id)
  have uid: "u_id u = uid" using find_Some_member [OF u] by simp
  have r1: "updateSubscriptionStatus ev sid status None w = (Inr ?s1, ?w1)"
    using st by (simp add: updateSubscriptionStatus_found [OF f] Let_def)
  have f1: "findById sid (subscriptions ?w1) = Some ?s1"
    using findById_save [OF f, of ?s1] sid by simp
  have u1: "find (\<lambda>u. u_id u = uid) (users ?w1) = Some u" using u by (simp add: save_def)
  let ?w2 = "?w1\<lparr>users := map (\<lambda>x. if u_id x = uid then ?u' else x) (users ?w1)\<rparr>"
  have r2: "User_updateSubscriptionStatus uid ustatus expiry ?w1 = (Inr ?u', ?w2)"
    using User_updateSubscriptionStatus_found [OF u1 ust, of expiry] by simp
  have f2: "findById sid (subscriptions ?w2) = Some ?s1" using f1 by simp
  have u2: "find (\<lambda>u. u_id u = uid) (users ?w2) = Some ?u'"
    using find_user_map [OF u1, of "\<lambda>_. ?u'"] uid by simp
  let ?w3 = "?w2\<lparr>subscriptions := map (\<lambda>x. if s_id x = sid
                 then x\<lparr>history := history x @ [e]\<rparr> else x) (subscriptions ?w2)\<rparr>"
  have r3: "saveChanges sid (\<lambda>s. s) e ?w2 = (Inr (), ?w3)"
    using act by (simp add: saveChanges_def)
  have f3: "findById sid (subscriptions ?w3) = Some (?s1\<lparr>history := history ?s1 @ [e]\<rparr>)"
    using findById_map [OF f2, of "\<lambda>x. x\<lparr>history := history x @ [e]\<rparr>"] sid by simp
  have u3: "find (\<lambda>u. u_id u = uid) (users ?w3) = Some ?u'" using u2 by simp
  have run: "run = (Inl (ValidationError ''relatedEntity.type''), ?w3)"
    unfolding run_def
    using r1 r2 r3 subscription_notification_refused [OF n, of ?w3] by (simp add: await_def)
  show "fst run = Inl (ValidationError ''relatedEntity.type'')" by (simp add: run)
  show "findById sid (subscriptions (snd run)) =
      Some (s\<lparr>s_status := status, history := history s @ [?e1, e],
              cancelledAt := (if status = ''cancelled'' then Some (now ev) else cancelledAt s)\<rparr>)"
    using f3 by (simp add: run)
  show "find (\<lambda>u. u_id u = uid) (users (snd run)) = Some ?u'"
    using u3 by (simp add: run)
  show "notifications (snd run) = notifications w" "payments (snd run) = payments w"
    by (simp_all add: run save_def)
qed


text \<open>The four handlers that set a status and then notify the user.\<close>

lemma activated_run:
  fixes ev :: env
  assumes sp: "d_subscription data = Some sp"
    and s: "find (\<lambda>s. razorpaySubscriptionId s = sp_id sp) (subscriptions w) = Some s"
    and d: "distinct (map s_id (subscriptions w))"
    and u: "find (\<lambda>u. u_id u = s_user s) (users w) = Some u"
  shows "fst (handleWebhook ev ''subscription.activated'' data w) = Inl (ValidationError ''relatedEntity.type'')"
    and "findById (s_id s) (subscriptions (snd (handleWebhook ev ''subscription.activated'' data w))) =
      Some (s\<lparr>s_status := ''active'',
              history := history s @
                [\<lparr>h_action = ''activated'', h_date = now ev,
                  h_details = ''Status changed from '' @ s_status s @ '' to active''\<rparr>,
                 \<lparr>h_action = ''activated'', h_date = now ev, h_details = ''Subscription activated''\<rparr>]\<rparr>)"
    and "notifications (snd (handleWebhook ev ''subscription.activated'' data w)) = notifications w"
    and "find (\<lambda>u. u_id u = s_user s) (users (snd (handleWebhook ev ''subscription.activated'' data w))) =
      Some (u\<lparr>subscriptionStatus := ''active'', subscriptionExpiry := Some (current_end sp * 1000)\<rparr>)"
proof -
  let ?e = "\<lparr>h_action = ''activated'', h_date = now ev, h_details = ''Subscription activated''\<rparr>"
  let ?n = "\<lparr>n_id = 0, n_title = ''Subscription Activated'',
        n_message = ''Your subscription has been activated successfully'',
        n_type = ''success'', n_recipient = s_user s,
        relatedEntity_type = ''subscription'', relatedEntity_id = s_id s,
        n_priority = ''high''\<rparr>"
  have f: "findById (s_id s) (subscriptions w) = Some s"
    using find_razorpay_findById [OF s d] .
  have run: "handleWebhook ev ''subscription.activated'' data w =
      await (updateSubscriptionStatus ev (s_id s) ''active'' None)
        (\<lambda>_. await (User_updateSubscriptionStatus (s_user s) ''active'' (Some (current_end sp * 1000)))
        (\<lambda>_. await (saveChanges (s_id s) (\<lambda>s. s) ?e)
        (\<lambda>_. await (createNotification ?n) (\<lambda>_. resolve ())))) w"
    using sp s by (simp add: handleWebhook_def handleSubscriptionActivated_def)
  have st: "''active'' \<in> set statusEnum" by (simp add: statusEnum_def)
  have act: "h_action ?e \<in> set actionEnum" by (simp add: actionEnum_def)
  have n: "n_title ?n \<noteq> []" "n_message ?n \<noteq> []" "n_type ?n \<in> set notificationTypeEnum"
    "relatedEntity_type ?n = ''subscription''"
    by (simp_all add: notificationTypeEnum_def)
  have ust: "''active'' \<in> set userStatusEnum" by (simp add: userStatusEnum_def)
  note T = transition_run_user [OF f st u ust act n, of ev "Some (current_end sp * 1000)"]
  show "fst (handleWebhook ev ''subscription.activated'' data w) = Inl (ValidationError ''relatedEntity.type'')"
    unfolding run using T(1) .
  show "findById (s_id s) (subscriptions (snd (handleWebhook ev ''subscription.activated'' data w))) =
      Some (s\<lparr>s_status := ''active'',
              history := history s @
                [\<lparr>h_action = ''activated'', h_date = now ev,
                  h_details = ''Status changed from '' @ s_status s @ '' to active''\<rparr>,
                 \<lparr>h_action = ''activated'', h_date = now ev, h_details = ''Subscription activated''\<rparr>]\<rparr>)"
    unfolding run using T(2) by simp
  show "notifications (snd (handleWebhook ev ''subscription.activated'' data w)) = notifications w"
    unfolding run using T(4) .
  show "find (\<lambda>u. u_id u = s_user s) (users (snd (handleWebhook ev ''subscription.activated'' data w))) =
      Some (u\<lparr>subscriptionStatus := ''active'', subscriptionExpiry := Some (current_end sp * 1000)\<rparr>)"
    unfolding run using T(3) by simp
qed

lemma cancelled_run:
  fixes ev :: env
  assumes sp: "d_subscription data = Some sp"
    and s: "find (\<lambda>s. razorpaySubscriptionId s = sp_id sp) (subscriptions w) = Some s"
    and d: "distinct (map s_id (subscriptions w))"
    and u: "find (\<lambda>u. u_id u = s_user s) (users w) = Some u"
  shows "fst (handleWebhook ev ''subscription.cancelled'' data w) = Inl (ValidationError ''relatedEntity.type'')"
    and "findById (s_id s) (subscriptions (snd (handleWebhook ev ''subscription.cancelled'' data w))) =
      Some (s\<lparr>s_status := ''cancelled'',
              history := history s @
                [\<lparr>h_action = ''cancelled'', h_date = now ev,
                  h_details = ''Status changed from '' @ s_status s @ '' to cancelled''\<rparr>,
                 \<lparr>h_action = ''cancelled'', h_date = now ev, h_details = ''Subscription cancelled via Razorpay''\<rparr>],
              cancelledAt := Some (now ev)\<rparr>)"
    and "notifications (snd (handleWebhook ev ''subscription.cancelled'' data w)) = notifications w"
    and "find (\<lambda>u. u_id u = s_user s) (users (snd (handleWebhook ev ''subscription.cancelled'' data w))) =
      Some (u\<lparr>subscriptionStatus := ''cancelled'', subscriptionExpiry := subscriptionExpiry u\<rparr>)"
proof -
  let ?e = "\<lparr>h_action = ''cancelled'', h_date = now ev, h_details = ''Subscription cancelled via Razorpay''\<rparr>"
  let ?n = "\<lparr>n_id = 0, n_title = ''Subscription Cancelled'',
        n_message = ''Your subscription has been cancelled. You can still use the service '' @
                       ''until the current billing period ends.'',
        n_type = ''warning'', n_recipient = s_user s,
        relatedEntity_type = ''subscription'', relatedEntity_id = s_id s,
        n_priority = ''medium''\<rparr>"
  have f: "findById (s_id s) (subscriptions w) = Some s"
    using find_razorpay_findById [OF s d] .
  have run: "handleWebhook ev ''subscription.cancelled'' data w =
      await (updateSubscriptionStatus ev (s_id s) ''cancelled'' None)
        (\<lambda>_. await (User_updateSubscriptionStatus (s_user s) ''cancelled'' None)
        (\<lambda>_. await (saveChanges (s_id s) (\<lambda>s. s) ?e)
        (\<lambda>_. await (createNotification ?n) (\<lambda>_. resolve ())))) w"
    using sp s by (simp add: handleWebhook_def handleSubscriptionCancelled_def)
  have st: "''cancelled'' \<in> set statusEnum" by (simp add: statusEnum_def)
  have act: "h_action ?e \<in> set actionEnum" by (simp add: actionEnum_def)
  have n: "n_title ?n \<noteq> []" "n_message ?n \<noteq> []" "n_type ?n \<in> set notificationTypeEnum"
    "relatedEntity_type ?n = ''subscription''"
    by (simp_all add: notificationTypeEnum_def)
  have ust: "''cancelled'' \<in> set userStatusEnum" by (simp add: userStatusEnum_def)
  note T = transition_run_user [OF f st u ust act n, of ev None]
  show "fst (handleWebhook ev ''subscription.cancelled'' data w) = Inl (ValidationError ''relatedEntity.type'')"
    unfolding run using T(1) .
  show "findById (s_id s) (subscriptions (snd (handleWebhook ev ''subscription.cancelled'' data w))) =
      Some (s\<lparr>s_status := ''cancelled'',
              history := history s @
                [\<lparr>h_action = ''cancelled'', h_date = now ev,
                  h_details = ''Status changed from '' @ s_status s @ '' to cancelled''\<rparr>,
                 \<lparr>h_action = ''cancelled'', h_date = now ev, h_details = ''Subscription cancelled via Razorpay''\<rparr>],
              cancelledAt := Some (now ev)\<rparr>)"
    unfolding run using T(2) by simp
  show "notifications (snd (handleWebhook ev ''subscription.cancelled'' data w)) = notifications w"
    unfolding run using T(4) .
  show "find (\<lambda>u. u_id u = s_user s) (users (snd (handleWebhook ev ''subscription.cancelled'' data w))) =
      Some (u\<lparr>subscriptionStatus := ''cancelled'', subscriptionExpiry := subscriptionExpiry u\<rparr>)"
    unfolding run using T(3) by simp
qed

lemma paused_run:
  fixes ev :: env
  assumes sp: "d_subscription data = Some sp"
    and s: "find (\<lambda>s. razorpaySubscriptionId s = sp_id sp) (subscriptions w) = Some s"
    and d: "distinct (map s_id (subscriptions w))"
  shows "fst (handleWebhook ev ''subscription.paused'' data w) = Inl (ValidationError ''relatedEntity.type'')"
    and "findById (s_id s) (subscriptions (snd (handleWebhook ev ''subscription.paused'' data w))) =
      Some (s\<lparr>s_status := ''paused'',
              history := history s @
                [\<lparr>h_action = ''activated'', h_date = now ev,
                  h_details = ''Status changed from '' @ s_status s @ '' to paused''\<rparr>,
                 \<lparr>h_action = ''paused'', h_date = now ev, h_details = ''Subscription paused''\<rparr>]\<rparr>)"
    and "notifications (snd (handleWebhook ev ''subscription.paused'' data w)) = notifications w"
proof -
  let ?e = "\<lparr>h_action = ''paused'', h_date = now ev, h_details = ''Subscription paused''\<rparr>"
  let ?n = "\<lparr>n_id = 0, n_title = ''Subscription Paused'',
        n_message = ''Your subscription has been paused. You can resume it anytime.'',
        n_type = ''info'', n_recipient = s_user s,
        relatedEntity_type = ''subscription'', relatedEntity_id = s_id s,
        n_priority = ''medium''\<rparr>"
  have f: "findById (s_id s) (subscriptions w) = Some s"
    using find_razorpay_findById [OF s d] .
  have run: "handleWebhook ev ''subscription.paused'' data w =
      await (updateSubscriptionStatus ev (s_id s) ''paused'' None)
        (\<lambda>_. await (saveChanges (s_id s) (\<lambda>s. s) ?e)
        (\<lambda>_. await (createNotification ?n) (\<lambda>_. resolve ()))) w"
    using sp s by (simp add: handleWebhook_def handleSubscriptionPaused_def)
  have st: "''paused'' \<in> set statusEnum" by (simp add: statusEnum_def)
  have act: "h_action ?e \<in> set actionEnum" by (simp add: actionEnum_def)
  have n: "n_title ?n \<noteq> []" "n_message ?n \<noteq> []" "n_type ?n \<in> set notificationTypeEnum"
    "relatedEntity_type ?n = ''subscription''"
    by (simp_all add: notificationTypeEnum_def)
  note T = transition_run [OF f st act n, of ev]
  show "fst (handleWebhook ev ''subscription.paused'' data w) = Inl (ValidationError ''relatedEntity.type'')"
    unfolding run using T(1) .
  show "findById (s_id s) (subscriptions (snd (handleWebhook ev ''subscription.paused'' data w))) =
      Some (s\<lparr>s_status := ''paused'',
              history := history s @
                [\<lparr>h_action = ''activated'', h_date = now ev,
                  h_details = ''Status changed from '' @ s_status s @ '' to paused''\<rparr>,
                 \<lparr>h_action = ''paused'', h_date = now ev, h_details = ''Subscription paused''\<rparr>]\<rparr>)"
    unfolding run using T(2) by simp
  show "notifications (snd (handleWebhook ev ''subscription.paused'' data w)) = notifications w"
    unfolding run using T(4) .
qed

lemma resumed_run:
  fixes ev :: env
  assumes sp: "d_subscription data = Some sp"
    and s: "find (\<lambda>s. razorpaySubscriptionId s = sp_id sp) (subscriptions w) = Some s"
    and d: "distinct (map s_id (subscriptions w))"
    and u: "find (\<lambda>u. u_id u = s_user s) (users w) = Some u"
  shows "fst (handleWebhook ev ''subscription.resumed'' data w) = Inl (ValidationError ''relatedEntity.type'')"
    and "findById (s_id s) (subscriptions (snd (handleWebhook ev ''subscription.resumed'' data w))) =
      Some (s\<lparr>s_status := ''active'',
              history := history s @
                [\<lparr>h_action = ''activated'', h_date = now ev,
                  h_details = ''Status changed from '' @ s_status s @ '' to active''\<rparr>,
                 \<lparr>h_action = ''resumed'', h_date = now ev, h_details = ''Subscription resumed''\<rparr>]\<rparr>)"
    and "notifications (snd (handleWebhook ev ''subscription.resumed'' data w)) = notifications w"
    and "find (\<lambda>u. u_id u = s_user s) (users (snd (handleWebhook ev ''subscription.resumed'' data w))) =
      Some (u\<lparr>subscriptionStatus := ''active'', subscriptionExpiry := Some (current_end sp * 1000)\<rparr>)"
proof -
  let ?e = "\<lparr>h_action = ''resumed'', h_date = now ev, h_details = ''Subscription resumed''\<rparr>"
  let ?n = "\<lparr>n_id = 0, n_title = ''Subscription Resumed'',
        n_message = ''Your subscription has been resumed successfully.'',
        n_type = ''success'', n_recipient = s_user s,
        relatedEntity_type = ''subscription'', relatedEntity_id = s_id s,
        n_priority = ''medium''\<rparr>"
  have f: "findById (s_id s) (subscriptions w) = Some s"
    using find_razorpay_findById [OF s d] .
  have run: "handleWebhook ev ''subscription.resumed'' data w =
      await (updateSubscriptionStatus ev (s_id s) ''active'' None)
        (\<lambda>_. await (User_updateSubscriptionStatus (s_user s) ''active'' (Some (current_end sp * 1000)))
        (\<lambda>_. await (saveChanges (s_id s) (\<lambda>s. s) ?e)
        (\<lambda>_. await (createNotification ?n) (\<lambda>_. resolve ())))) w"
    using sp s by (simp add: handleWebhook_def handleSubscriptionResumed_def)
  have st: "''active'' \<in> set statusEnum" by (simp add: statusEnum_def)
  have act: "h_action ?e \<in> set actionEnum" by (simp add: actionEnum_def)
  have n: "n_title ?n \<noteq> []" "n_message ?n \<noteq> []" "n_type ?n \<in> set notificationTypeEnum"
    "relatedEntity_type ?n = ''subscription''"
    by (simp_all add: notificationTypeEnum_def)
  have ust: "''active'' \<in> set userStatusEnum" by (simp add: userStatusEnum_def)
  note T = transition_run_user [OF f st u ust act n, of ev "Some (current_end sp * 1000)"]
  show "fst (handleWebhook ev ''subscription.resumed'' data w) = Inl (ValidationError ''relatedEntity.type'')"
    unfolding run using T(1) .
  show "findById (s_id s) (subscriptions (snd (handleWebhook ev ''subscription.resumed'' data w))) =
      Some (s\<lparr>s_status := ''active'',
              history := history s @
                [\<lparr>h_action = ''activated'', h_date = now ev,
                  h_details = ''Status changed from '' @ s_status s @ '' to active''\<rparr>,
                 \<lparr>h_action = ''resumed'', h_date = now ev, h_details = ''Subscription resumed''\<rparr>]\<rparr>)"
    unfolding run using T(2) by simp
  show "notifications (snd (handleWebhook ev ''subscription.resumed'' data w)) = notifications w"
    unfolding run using T(4) .
  show "find (\<lambda>u. u_id u = s_user s) (users (snd (handleWebhook ev ''subscription.resumed'' data w))) =
      Some (u\<lparr>subscriptionStatus := ''active'', subscriptionExpiry := Some (current_end sp * 1000)\<rparr>)"
    unfolding run using T(3) by simp
qed

lemma await_pair:
  "m w = (x, w') \<Longrightarrow>
   await m k w = (case x of Inl e \<Rightarrow> (Inl e, w') | Inr a \<Rightarrow> k a w')"
  by (cases x) (simp_all add: await_def)

text \<open>One delivery of \<open>subscription.charged\<close> for a stored subscription whose user is stored.\<close>

lemma charged_step:
  fixes ev :: env
  assumes sp: "d_subscription data = Some sp"
    and pp: "d_payment data = Some pp"
    and s: "find (\<lambda>s. razorpaySubscriptionId s = sp_id sp) (subscriptions w) = Some s"
    and u: "find (\<lambda>u. u_id u = s_user s) (users w) = Some u"
  defines "r \<equiv> handleWebhook ev ''subscription.charged'' data w"
  shows "find (\<lambda>s. razorpaySubscriptionId s = sp_id sp) (subscriptions (snd r)) =
           Some (s\<lparr>nextBillingDate := Some (current_end sp * 1000),
                   endDate := Some (current_end sp * 1000),
                   history := history s @
                     [\<lparr>h_action = ''renewed'', h_date = now ev,
                       h_details = ''Subscription renewed. Payment: '' @
                         rupees ev (pp_amount pp)\<rparr>]\<rparr>)"
    and "find (\<lambda>u. u_id u = s_user s) (users (snd r)) =
           Some (u\<lparr>subscriptionStatus := ''active'',
                   subscriptionExpiry := Some (current_end sp * 1000)\<rparr>)"
    and "notifications (snd r) = notifications w"
    and "\<exists>p\<in>set (payments w). razorpayPaymentId p = pp_id pp \<Longrightarrow>
           payments (snd r) = payments w \<and> fst r = Inl (ValidationError ''relatedEntity.type'')"
    and "\<forall>p\<in>set (payments w). razorpayPaymentId p \<noteq> pp_id pp \<Longrightarrow>
         pp_id pp \<noteq> [] \<Longrightarrow> order_id pp \<noteq> [] \<Longrightarrow> 0 \<le> pp_amount pp \<Longrightarrow>
         (case pp_currency pp of None \<Rightarrow> True | Some c \<Rightarrow> c \<in> set currencyEnum) \<Longrightarrow>
         pp_method pp \<in> set paymentMethodEnum \<Longrightarrow>
         receipt ev \<notin> set (map receipt_number (payments w)) \<Longrightarrow>
         (\<exists>doc. payments (snd r) = payments w @ [doc] \<and> razorpayPaymentId doc = pp_id pp \<and>
               p_status doc = ''captured'') \<and>
         fst r = Inl (ValidationError ''relatedEntity.type'')"
proof -
  let ?d = "Some (current_end sp * 1000)"
  let ?e = "\<lparr>h_action = ''renewed'', h_date = now ev,
             h_details = ''Subscription renewed. Payment: '' @ rupees ev (pp_amount pp)\<rparr>"
  let ?g = "\<lambda>x. if s_id x = s_id s
                then (x\<lparr>nextBillingDate := ?d, endDate := ?d\<rparr>)\<lparr>history := history x @ [?e]\<rparr>
                else x"
  let ?w1 = "w\<lparr>subscriptions := map ?g (subscriptions w)\<rparr>"
  let ?u' = "u\<lparr>subscriptionStatus := ''active'', subscriptionExpiry := ?d\<rparr>"
  let ?w2 = "?w1\<lparr>users := map (\<lambda>x. if u_id x = s_user s then ?u' else x) (users ?w1)\<rparr>"
  let ?P = "\<lparr>p_id = 0, p_user = s_user s, p_subscription = Some (s_id s),
             razorpayPaymentId = pp_id pp, razorpayOrderId = order_id pp,
             p_amount = of_int (pp_amount pp) / 100,
             p_currency = (case pp_currency pp of None \<Rightarrow> ''INR'' | Some c \<Rightarrow> c),
             p_status = ''captured'', paymentMethod_type = pp_method pp,
             paymentMethod_card = None, paidAt = Some (created_at pp * 1000),
             failedAt = None, p_description = ''Recurring subscription payment'',
             p_error = None, p_notes = [], receipt_number = []\<rparr>"
  let ?pay = "\<lambda>w'. case find (\<lambda>p. razorpayPaymentId p = pp_id pp) (payments w') of
                       Some existingPayment \<Rightarrow> (Inr (), w')
                     | None \<Rightarrow> await (createPayment ev ?P) (\<lambda>_. resolve ()) w'"
  let ?n = "\<lparr>n_id = 0, n_title = ''Subscription Renewed'',
             n_message = ''Your subscription has been renewed. Payment of '' @
               rupees ev (pp_amount pp) @ '' processed.'',
             n_type = ''success'', n_recipient = s_user s,
             relatedEntity_type = ''subscription'', relatedEntity_id = s_id s,
             n_priority = ''medium''\<rparr>"
  have n: "n_title ?n \<noteq> []" "n_message ?n \<noteq> []" "n_type ?n \<in> set notificationTypeEnum"
    "relatedEntity_type ?n = ''subscription''"
    by (simp_all add: notificationTypeEnum_def)
  note refused = subscription_notification_refused [OF n]
  have r1: "saveChanges (s_id s)
      (\<lambda>s. s\<lparr>nextBillingDate := ?d, endDate := ?d\<rparr>) ?e w = (Inr (), ?w1)"
    by (simp add: saveChanges_def actionEnum_def)
  have u1: "find (\<lambda>u. u_id u = s_user s) (users ?w1) = Some u" using u by simp
  have r2: "User_updateSubscriptionStatus (s_user s) ''active'' ?d ?w1 = (Inr ?u', ?w2)"
    using User_updateSubscriptionStatus_found [OF u1, of "''active''" ?d]
    by (simp add: userStatusEnum_def)
  have run: "r = await ?pay (\<lambda>_. await (createNotification ?n) (\<lambda>_. resolve ())) ?w2"
    unfolding r_def using sp pp s r1 r2
    by (simp add: handleWebhook_def handleSubscriptionCharged_def await_def)
  obtain x w3 where pay: "?pay ?w2 = (x, w3)" by (cases "?pay ?w2")
  have pay_frame: "subscriptions w3 = subscriptions ?w2" "users w3 = users ?w2"
      "notifications w3 = notifications ?w2"
    using pay
    by (auto simp: await_def createPayment_def resolve_def Let_def
        split: option.splits if_splits)
  have r3: "r = (case x of Inl e \<Rightarrow> (Inl e, w3)
                | Inr a \<Rightarrow> (Inl (ValidationError ''relatedEntity.type''), w3))"
    unfolding run
    using await_pair [of ?pay ?w2 x w3 "\<lambda>_. await (createNotification ?n) (\<lambda>_. resolve ())"]
      pay refused [of w3]
    by (cases x) (simp_all del: find.simps)
  have snd_r: "snd r = w3" unfolding r3 by (cases x) simp_all
  have "find (\<lambda>s. razorpaySubscriptionId s = sp_id sp) (map ?g (subscriptions w)) =
      map_option ?g (find (\<lambda>s. razorpaySubscriptionId s = sp_id sp) (subscriptions w))"
    by (rule find_razorpay_map) simp
  then show "find (\<lambda>s. razorpaySubscriptionId s = sp_id sp) (subscriptions (snd r)) =
           Some (s\<lparr>nextBillingDate := ?d, endDate := ?d, history := history s @ [?e]\<rparr>)"
    using s by (simp add: snd_r pay_frame)
  have uid: "u_id u = s_user s" using find_Some_member [OF u] by simp
  show "find (\<lambda>u. u_id u = s_user s) (users (snd r)) = Some ?u'"
    using find_user_map [OF u, of "\<lambda>_. ?u'"] uid by (simp add: snd_r pay_frame)
  show "notifications (snd r) = notifications w"
    by (simp add: snd_r pay_frame)
  {
    assume ex: "\<exists>p\<in>set (payments w). razorpayPaymentId p = pp_id pp"
    then obtain q where q: "find (\<lambda>p. razorpayPaymentId p = pp_id pp) (payments ?w2) = Some q"
      by (cases "find (\<lambda>p. razorpayPaymentId p = pp_id pp) (payments w)")
         (auto simp: find_None_iff)
    have "x = Inr ()" "w3 = ?w2" using pay q by simp_all
    then show "payments (snd r) = payments w \<and>
        fst r = Inl (ValidationError ''relatedEntity.type'')"
      unfolding r3 by simp
  }
  {
    assume no: "\<forall>p\<in>set (payments w). razorpayPaymentId p \<noteq> pp_id pp"
      and v: "pp_id pp \<noteq> []" "order_id pp \<noteq> []" "0 \<le> pp_amount pp"
        "case pp_currency pp of None \<Rightarrow> True | Some c \<Rightarrow> c \<in> set currencyEnum"
        "pp_method pp \<in> set paymentMethodEnum"
      and rc: "receipt ev \<notin> set (map receipt_number (payments w))"
    let ?doc = "?P\<lparr>receipt_number := receipt ev, p_id := freshId (map p_id (payments w))\<rparr>"
    have none: "find (\<lambda>p. razorpayPaymentId p = pp_id pp) (payments ?w2) = None"
      using no by (simp add: find_None_iff)
    have valid: "paymentSchema ?doc"
      using v by (simp add: paymentSchema_def paymentStatusEnum_def currencyEnum_def
          split: option.splits)
    have nodup: "razorpayPaymentId ?doc \<notin> set (map razorpayPaymentId (payments ?w2))"
      using no by auto
    have cp: "createPayment ev ?P ?w2 = (Inr ?doc, ?w2\<lparr>payments := payments w @ [?doc]\<rparr>)"
      using valid nodup rc by (simp add: createPayment_def Let_def)
    have "x = Inr ()" "w3 = ?w2\<lparr>payments := payments w @ [?doc]\<rparr>"
      using pay none cp by (simp_all add: await_def resolve_def)
    then show "(\<exists>doc. payments (snd r) = payments w @ [doc] \<and> razorpayPaymentId doc = pp_id pp \<and>
               p_status doc = ''captured'') \<and>
         fst r = Inl (ValidationError ''relatedEntity.type'')"
      unfolding r3 by simp
  }
qed

lemma scenario_facts:
  "d_subscription scenario_data = Some \<lparr>sp_id = ''sub_A'', current_end = 9000\<rparr>"
  "find (\<lambda>s. razorpaySubscriptionId s = sp_id \<lparr>sp_id = ''sub_A'', current_end = 9000\<rparr>)
     (subscriptions scenario_world) = Some scenario_subscription"
  "distinct (map s_id (subscriptions scenario_world))"
  "find (\<lambda>u. u_id u = s_user scenario_subscription) (users scenario_world) = Some scenario_user"
  by (simp_all add: scenario_data_def scenario_world_def scenario_subscription_def
      scenario_user_def)


section \<open>Properties of subscription.activated\<close>

text \<open>
  Claim C5, as the code has it. A call of \<open>updateSubscriptionStatus\<close> that returns has
  appended exactly one history entry. Processing \<open>subscription.activated\<close> for a stored
  subscription whose user is stored sets the status to \<open>active\<close> and appends two history
  entries, both with the action \<open>activated\<close>: the one of \<open>updateSubscriptionStatus\<close> and
  the one the handler pushes itself. The period end of the payload becomes the
  \<open>subscriptionExpiry\<close> of the user, whose \<open>subscriptionStatus\<close> becomes \<open>active\<close>.
\<close>

theorem activation_appends_two_entries:
  fixes ev :: env
  assumes "d_subscription data = Some sp"
    and "find (\<lambda>s. razorpaySubscriptionId s = sp_id sp) (subscriptions w) = Some s"
    and "distinct (map s_id (subscriptions w))"
    and "find (\<lambda>u. u_id u = s_user s) (users w) = Some u"
  shows "(\<forall>sid status details s1 w1.
            updateSubscriptionStatus ev sid status details w = (Inr s1, w1) \<longrightarrow>
            (\<exists>s0. findById sid (subscriptions w) = Some s0 \<and>
                  history s1 = history s0 @ [last (history s1)] \<and>
                  findById sid (subscriptions w1) = Some s1)) \<and>
         (\<exists>s'. findById (s_id s)
                 (subscriptions (snd (handleWebhook ev ''subscription.activated'' data w))) = Some s' \<and>
               s_status s' = ''active'' \<and>
               history s' = history s @
                 [\<lparr>h_action = ''activated'', h_date = now ev,
                   h_details = ''Status changed from '' @ s_status s @ '' to active''\<rparr>,
                  \<lparr>h_action = ''activated'', h_date = now ev,
                   h_details = ''Subscription activated''\<rparr>]) \<and>
         find (\<lambda>u. u_id u = s_user s)
           (users (snd (handleWebhook ev ''subscription.activated'' data w))) =
           Some (u\<lparr>subscriptionStatus := ''active'',
                   subscriptionExpiry := Some (current_end sp * 1000)\<rparr>)"
proof (intro conjI allI impI)
  fix sid status details s1 w1
  assume a: "updateSubscriptionStatus ev sid status details w = (Inr s1, w1)"
  from updateSubscriptionStatus_Inr [OF a] obtain s0 where
    s0: "findById sid (subscriptions w) = Some s0" "w1 = save s1 w" "s_id s1 = sid"
      "history s1 = history s0 @ [last (history s1)]"
    by blast
  have "findById sid (subscriptions w1) = Some s1"
    using findById_save [OF s0(1) s0(3)] s0(2) by simp
  with s0 show "\<exists>s0. findById sid (subscriptions w) = Some s0 \<and>
                  history s1 = history s0 @ [last (history s1)] \<and>
                  findById sid (subscriptions w1) = Some s1"
    by blast
next
  show "\<exists>s'. findById (s_id s)
                 (subscriptions (snd (handleWebhook ev ''subscription.activated'' data w))) = Some s' \<and>
               s_status s' = ''active'' \<and>
               history s' = history s @
                 [\<lparr>h_action = ''activated'', h_date = now ev,
                   h_details = ''Status changed from '' @ s_status s @ '' to active''\<rparr>,
                  \<lparr>h_action = ''activated'', h_date = now ev,
                   h_details = ''Subscription activated''\<rparr>]"
    using activated_run(2) [OF assms, of ev] by simp
next
  show "find (\<lambda>u. u_id u = s_user s)
           (users (snd (handleWebhook ev ''subscription.activated'' data w))) =
           Some (u\<lparr>subscriptionStatus := ''active'',
                   subscriptionExpiry := Some (current_end sp * 1000)\<rparr>)"
    using activated_run(4) [OF assms, of ev] .
qed

theorem activation_appends_two_entries_witness:
  "d_subscription scenario_data = Some \<lparr>sp_id = ''sub_A'', current_end = 9000\<rparr> \<and>
   find (\<lambda>s. razorpaySubscriptionId s = ''sub_A'') (subscriptions scenario_world) =
     Some scenario_subscription \<and>
   distinct (map s_id (subscriptions scenario_world)) \<and>
   find (\<lambda>u. u_id u = 7) (users scenario_world) = Some scenario_user \<and>
   (\<exists>s'. findById 1
           (subscriptions (snd (handleWebhook scenario_env ''subscription.activated''
              scenario_data scenario_world))) = Some s' \<and>
         s_status s' = ''active'' \<and>
         map h_action (history s') = [''created'', ''activated'', ''activated'']) \<and>
   find (\<lambda>u. u_id u = 7)
     (users (snd (handleWebhook scenario_env ''subscription.activated''
        scenario_data scenario_world))) =
     Some (scenario_user\<lparr>subscriptionStatus := ''active'', subscriptionExpiry := Some 9000000\<rparr>)"
proof -
  have ids: "s_id scenario_subscription = 1" "s_user scenario_subscription = 7"
    "map h_action (history scenario_subscription) = [''created'']"
    by (simp_all add: scenario_subscription_def)
  show ?thesis
    using scenario_facts ids
      activation_appends_two_entries [OF scenario_facts, of scenario_env]
    by auto
qed

lemmas handler_eval =
  handleWebhook_def handleSubscriptionActivated_def handleSubscriptionCancelled_def
  handleSubscriptionCharged_def handlePaymentCaptured_def await_def resolve_def
  updateSubscriptionStatus_def User_updateSubscriptionStatus_def saveChanges_def
  createPayment_def createNotification_def notificationSchema_def paymentSchema_def
  findById_def save_def freshId_def statusEnum_def actionEnum_def userStatusEnum_def
  paymentStatusEnum_def paymentMethodEnum_def currencyEnum_def notificationTypeEnum_def
  relatedEntityEnum_def priorityEnum_def Let_def
  scenario_env_def scenario_env_late_def scenario_data_def scenario_world_def
  scenario_subscription_def scenario_user_def

text \<open>
  In the scenario of the specification the history gains two entries, not one, and
  \<open>nextBillingDate\<close> keeps its value although the payload brings a period end. The
  webhook itself ends with the error of the notification, which the schema refuses.
\<close>

theorem activation_history_counterexample:
  "map s_status (subscriptions scenario_world) = [''trialing''] \<and>
   map (\<lambda>s. map h_action (history s)) (subscriptions scenario_world) = [[''created'']] \<and>
   map nextBillingDate (subscriptions scenario_world) = [Some 5000] \<and>
   fst (handleWebhook scenario_env ''subscription.activated'' scenario_data scenario_world) =
     Inl (ValidationError ''relatedEntity.type'') \<and>
   map s_status (subscriptions (snd (handleWebhook scenario_env ''subscription.activated''
     scenario_data scenario_world))) = [''active''] \<and>
   map (\<lambda>s. map h_action (history s)) (subscriptions (snd (handleWebhook scenario_env
     ''subscription.activated'' scenario_data scenario_world))) =
     [[''created'', ''activated'', ''activated'']] \<and>
   map nextBillingDate (subscriptions (snd (handleWebhook scenario_env ''subscription.activated''
     scenario_data scenario_world))) = [Some 5000]"
  by (simp add: handler_eval)

section \<open>Properties of a failing notification\<close>

text \<open>
  Claim C8, as the code has it. The handlers of \<open>subscription.activated\<close>, \<open>cancelled\<close>,
  \<open>paused\<close>, \<open>resumed\<close> and \<open>charged\<close> change the subscription and then await the
  notification of the user. That notification fails (the schema refuses its related entity
  type). The change is not rolled back: the stored subscription has the new status and
  its two new history entries, or, for \<open>charged\<close>, the new billing date, its new history
  entry and the payment. But the failure is not swallowed either: \<open>handleWebhook\<close> throws
  the error of the notification again.
\<close>

theorem notification_failure_is_thrown:
  fixes ev :: env
  assumes "d_subscription data = Some sp"
    and "find (\<lambda>s. razorpaySubscriptionId s = sp_id sp) (subscriptions w) = Some s"
    and "distinct (map s_id (subscriptions w))"
    and "find (\<lambda>u. u_id u = s_user s) (users w) = Some u"
  shows "(\<forall>n w0. n_title n \<noteq> [] \<and> n_message n \<noteq> [] \<and> n_type n \<in> set notificationTypeEnum \<and>
            relatedEntity_type n = ''subscription'' \<longrightarrow>
            createNotification n w0 = (Inl (ValidationError ''relatedEntity.type''), w0)) \<and>
         (\<forall>event target.
            (event, target) \<in> set [(''subscription.activated'', ''active''),
               (''subscription.cancelled'', ''cancelled''), (''subscription.paused'', ''paused''),
               (''subscription.resumed'', ''active'')] \<longrightarrow>
            fst (handleWebhook ev event data w) = Inl (ValidationError ''relatedEntity.type'') \<and>
            (\<exists>s'. findById (s_id s) (subscriptions (snd (handleWebhook ev event data w))) = Some s' \<and>
                  s_status s' = target \<and> length (history s') = length (history s) + 2)) \<and>
         (\<forall>pp. d_payment data = Some pp \<and>
            ((\<exists>p\<in>set (payments w). razorpayPaymentId p = pp_id pp) \<or>
             (\<forall>p\<in>set (payments w). razorpayPaymentId p \<noteq> pp_id pp) \<and>
             pp_id pp \<noteq> [] \<and> order_id pp \<noteq> [] \<and> 0 \<le> pp_amount pp \<and>
             (case pp_currency pp of None \<Rightarrow> True | Some c \<Rightarrow> c \<in> set currencyEnum) \<and>
             pp_method pp \<in> set paymentMethodEnum \<and>
             receipt ev \<notin> set (map receipt_number (payments w))) \<longrightarrow>
            fst (handleWebhook ev ''subscription.charged'' data w) =
              Inl (ValidationError ''relatedEntity.type'') \<and>
            (\<exists>s'. find (\<lambda>s. razorpaySubscriptionId s = sp_id sp)
                    (subscriptions (snd (handleWebhook ev ''subscription.charged'' data w))) =
                    Some s' \<and>
                  nextBillingDate s' = Some (current_end sp * 1000) \<and>
                  length (history s') = Suc (length (history s))) \<and>
            (\<exists>p\<in>set (payments (snd (handleWebhook ev ''subscription.charged'' data w))).
               razorpayPaymentId p = pp_id pp))"
proof (intro conjI allI impI)
  fix n :: notification and w0 :: world
  assume "n_title n \<noteq> [] \<and> n_message n \<noteq> [] \<and> n_type n \<in> set notificationTypeEnum \<and>
            relatedEntity_type n = ''subscription''"
  then show "createNotification n w0 = (Inl (ValidationError ''relatedEntity.type''), w0)"
    by (simp add: createNotification_def notificationSchema_def relatedEntityEnum_def)
next
  fix event target
  assume "(event, target) \<in> set [(''subscription.activated'', ''active''),
               (''subscription.cancelled'', ''cancelled''), (''subscription.paused'', ''paused''),
               (''subscription.resumed'', ''active'')]"
  then consider
      (a) "event = ''subscription.activated''" "target = ''active''"
    | (c) "event = ''subscription.cancelled''" "target = ''cancelled''"
    | (p) "event = ''subscription.paused''" "target = ''paused''"
    | (r) "event = ''subscription.resumed''" "target = ''active''"
    by auto
  then have "fst (handleWebhook ev event data w) = Inl (ValidationError ''relatedEntity.type'') \<and>
            (\<exists>s'. findById (s_id s) (subscriptions (snd (handleWebhook ev event data w))) = Some s' \<and>
                  s_status s' = target \<and> length (history s') = length (history s) + 2)"
  proof cases
    case a
    show ?thesis
      unfolding a using activated_run(1,2) [OF assms, of ev] by simp
  next
    case c
    show ?thesis
      unfolding c using cancelled_run(1,2) [OF assms, of ev] by simp
  next
    case p
    show ?thesis
      unfolding p using paused_run(1,2) [OF assms(1-3), of ev] by simp
  next
    case r
    show ?thesis
      unfolding r using resumed_run(1,2) [OF assms, of ev] by simp
  qed
  then show "fst (handleWebhook ev event data w) = Inl (ValidationError ''relatedEntity.type'')"
    and "\<exists>s'. findById (s_id s) (subscriptions (snd (handleWebhook ev event data w))) = Some s' \<and>
                  s_status s' = target \<and> length (history s') = length (history s) + 2"
    by simp_all
next
  fix pp
  assume h: "d_payment data = Some pp \<and>
            ((\<exists>p\<in>set (payments w). razorpayPaymentId p = pp_id pp) \<or>
             (\<forall>p\<in>set (payments w). razorpayPaymentId p \<noteq> pp_id pp) \<and>
             pp_id pp \<noteq> [] \<and> order_id pp \<noteq> [] \<and> 0 \<le> pp_amount pp \<and>
             (case pp_currency pp of None \<Rightarrow> True | Some c \<Rightarrow> c \<in> set currencyEnum) \<and>
             pp_method pp \<in> set paymentMethodEnum \<and>
             receipt ev \<notin> set (map receipt_number (payments w)))"
  then have pp: "d_payment data = Some pp" by simp
  note st = charged_step [OF assms(1) pp assms(2,4), of ev]
  have pay: "fst (handleWebhook ev ''subscription.charged'' data w) =
              Inl (ValidationError ''relatedEntity.type'') \<and>
      (\<exists>p\<in>set (payments (snd (handleWebhook ev ''subscription.charged'' data w))).
               razorpayPaymentId p = pp_id pp)"
  proof (cases "\<exists>p\<in>set (payments w). razorpayPaymentId p = pp_id pp")
    case True
    from st(4) [OF True] True show ?thesis by simp
  next
    case False
    with h have c: "\<forall>p\<in>set (payments w). razorpayPaymentId p \<noteq> pp_id pp"
      "pp_id pp \<noteq> []" "order_id pp \<noteq> []" "0 \<le> pp_amount pp"
      "case pp_currency pp of None \<Rightarrow> True | Some c \<Rightarrow> c \<in> set currencyEnum"
      "pp_method pp \<in> set paymentMethodEnum"
      "receipt ev \<notin> set (map receipt_number (payments w))"
      by auto
    from st(5) [OF c] show ?thesis by auto
  qed
  show "fst (handleWebhook ev ''subscription.charged'' data w) =
              Inl (ValidationError ''relatedEntity.type'')"
    using pay by simp
  show "\<exists>p\<in>set (payments (snd (handleWebhook ev ''subscription.charged'' data w))).
               razorpayPaymentId p = pp_id pp"
    using pay by simp
  show "\<exists>s'. find (\<lambda>s. razorpaySubscriptionId s = sp_id sp)
                    (subscriptions (snd (handleWebhook ev ''subscription.charged'' data w))) =
                    Some s' \<and>
                  nextBillingDate s' = Some (current_end sp * 1000) \<and>
                  length (history s') = Suc (length (history s))"
    using st(1) by simp
qed


theorem notification_failure_is_thrown_witness:
  "(''subscription.cancelled'', ''cancelled'') \<in> set [(''subscription.activated'', ''active''),
       (''subscription.cancelled'', ''cancelled''), (''subscription.paused'', ''paused''),
       (''subscription.resumed'', ''active'')] \<and>
   fst (handleWebhook scenario_env ''subscription.cancelled'' scenario_data scenario_world) =
     Inl (ValidationError ''relatedEntity.type'') \<and>
   (\<exists>s'. findById 1 (subscriptions (snd (handleWebhook scenario_env
             ''subscription.cancelled'' scenario_data scenario_world))) = Some s' \<and>
         s_status s' = ''cancelled'' \<and> length (history s') = 3) \<and>
   payments scenario_world = [] \<and>
   fst (handleWebhook scenario_env ''subscription.charged'' scenario_data scenario_world) =
     Inl (ValidationError ''relatedEntity.type'') \<and>
   (\<exists>s'. find (\<lambda>s. razorpaySubscriptionId s = ''sub_A'')
           (subscriptions (snd (handleWebhook scenario_env ''subscription.charged''
              scenario_data scenario_world))) = Some s' \<and>
         nextBillingDate s' = Some 9000000 \<and> length (history s') = 2) \<and>
   (\<exists>p\<in>set (payments (snd (handleWebhook scenario_env ''subscription.charged''
              scenario_data scenario_world))). razorpayPaymentId p = ''pay_X'') \<and>
   createNotification
     \<lparr>n_id = 0, n_title = ''Subscription Cancelled'', n_message = ''Your subscription'',
      n_type = ''warning'', n_recipient = 7, relatedEntity_type = ''subscription'',
      relatedEntity_id = 1, n_priority = ''medium''\<rparr> scenario_world =
     (Inl (ValidationError ''relatedEntity.type''), scenario_world)"
proof -
  let ?pp = "\<lparr>pp_id = ''pay_X'', order_id = ''order_X'', pp_amount = 2999,
         pp_currency = Some ''INR'', pp_method = ''card'', created_at = 1, card = None,
         error_code = [], error_description = [], error_source = [], error_step = [],
         error_reason = []\<rparr>"
  let ?n = "\<lparr>n_id = 0, n_title = ''Subscription Cancelled'', n_message = ''Your subscription'',
      n_type = ''warning'', n_recipient = 7, relatedEntity_type = ''subscription'',
      relatedEntity_id = 1, n_priority = ''medium''\<rparr>"
  have ids: "s_id scenario_subscription = 1" "length (history scenario_subscription) = 1"
    by (simp_all add: scenario_subscription_def)
  have m: "(''subscription.cancelled'', ''cancelled'') \<in> set [(''subscription.activated'', ''active''),
       (''subscription.cancelled'', ''cancelled''), (''subscription.paused'', ''paused''),
       (''subscription.resumed'', ''active'')]" by simp
  have p0: "payments scenario_world = []" by (simp add: scenario_world_def)
  have pp: "d_payment scenario_data = Some ?pp" by (simp add: scenario_data_def)
  have h: "d_payment scenario_data = Some ?pp \<and>
            ((\<exists>p\<in>set (payments scenario_world). razorpayPaymentId p = pp_id ?pp) \<or>
             (\<forall>p\<in>set (payments scenario_world). razorpayPaymentId p \<noteq> pp_id ?pp) \<and>
             pp_id ?pp \<noteq> [] \<and> order_id ?pp \<noteq> [] \<and> 0 \<le> pp_amount ?pp \<and>
             (case pp_currency ?pp of None \<Rightarrow> True | Some c \<Rightarrow> c \<in> set currencyEnum) \<and>
             pp_method ?pp \<in> set paymentMethodEnum \<and>
             receipt scenario_env \<notin> set (map receipt_number (payments scenario_world)))"
    using pp by (simp add: p0 currencyEnum_def paymentMethodEnum_def)
  have nv: "n_title ?n \<noteq> [] \<and> n_message ?n \<noteq> [] \<and> n_type ?n \<in> set notificationTypeEnum \<and>
            relatedEntity_type ?n = ''subscription''"
    by (simp add: notificationTypeEnum_def)
  note T = notification_failure_is_thrown [OF scenario_facts, of scenario_env]
  from T [THEN conjunct1] nv
  have t1: "createNotification ?n scenario_world =
      (Inl (ValidationError ''relatedEntity.type''), scenario_world)" by blast
  from T [THEN conjunct2, THEN conjunct1] m
  have t2: "fst (handleWebhook scenario_env ''subscription.cancelled'' scenario_data scenario_world) =
       Inl (ValidationError ''relatedEntity.type'') \<and>
     (\<exists>s'. findById (s_id scenario_subscription) (subscriptions (snd (handleWebhook scenario_env
             ''subscription.cancelled'' scenario_data scenario_world))) = Some s' \<and>
         s_status s' = ''cancelled'' \<and>
         length (history s') = length (history scenario_subscription) + 2)" by blast
  from T [THEN conjunct2, THEN conjunct2] h
  have t3: "fst (handleWebhook scenario_env ''subscription.charged'' scenario_data scenario_world) =
              Inl (ValidationError ''relatedEntity.type'') \<and>
      (\<exists>s'. find (\<lambda>s. razorpaySubscriptionId s = sp_id \<lparr>sp_id = ''sub_A'', current_end = 9000\<rparr>)
              (subscriptions (snd (handleWebhook scenario_env ''subscription.charged''
                 scenario_data scenario_world))) = Some s' \<and>
            nextBillingDate s' = Some (current_end \<lparr>sp_id = ''sub_A'', current_end = 9000\<rparr> * 1000) \<and>
            length (history s') = Suc (length (history scenario_subscription))) \<and>
      (\<exists>p\<in>set (payments (snd (handleWebhook scenario_env ''subscription.charged''
              scenario_data scenario_world))). razorpayPaymentId p = pp_id ?pp)" by blast
  show ?thesis
    using m p0 t1 t2 t3 ids by (simp add: numeral_3_eq_3 numeral_2_eq_2)
qed

text \<open>
  The activation of the scenario: the webhook fails with the error of the notification
  after the subscription became active, and no notification is stored.
\<close>

theorem notification_failure_counterexample:
  "fst (handleWebhook scenario_env ''subscription.activated'' scenario_data scenario_world) =
     Inl (ValidationError ''relatedEntity.type'') \<and>
   map s_status (subscriptions scenario_world) = [''trialing''] \<and>
   map s_status (subscriptions (snd (handleWebhook scenario_env ''subscription.activated''
     scenario_data scenario_world))) = [''active''] \<and>
   notifications (snd (handleWebhook scenario_env ''subscription.activated''
     scenario_data scenario_world)) = []"
  by (simp add: handler_eval)


section \<open>Properties of the webhook service\<close>

lemma find_None_unknown: "\<forall>x\<in>set xs. f x \<noteq> k \<Longrightarrow> find (\<lambda>x. f x = k) xs = None"
  by (simp add: find_None_iff)

text \<open>
  Claim C6. A subscription event whose subscription id no stored subscription has, and a
  payment event whose payment id no stored payment has, is acknowledged: \<open>handleWebhook\<close>
  returns without an error and the collections are what they were.
\<close>

theorem orphan_event_is_acknowledged:
  "(event \<in> set [''subscription.activated'', ''subscription.charged'',
       ''subscription.completed'', ''subscription.cancelled'', ''subscription.paused'',
       ''subscription.resumed'', ''subscription.halted'', ''subscription.pending'',
       ''subscription.updated''] \<and>
    d_subscription data = Some sp \<and>
    (\<forall>s\<in>set (subscriptions w). razorpaySubscriptionId s \<noteq> sp_id sp) \<longrightarrow>
      handleWebhook ev event data w = (Inr (), w)) \<and>
   (event \<in> set [''payment.captured'', ''payment.failed''] \<and>
    d_payment data = Some pp \<and>
    (\<forall>p\<in>set (payments w). razorpayPaymentId p \<noteq> pp_id pp) \<longrightarrow>
      handleWebhook ev event data w = (Inr (), w))"
proof (intro conjI impI)
  assume a: "event \<in> set [''subscription.activated'', ''subscription.charged'',
       ''subscription.completed'', ''subscription.cancelled'', ''subscription.paused'',
       ''subscription.resumed'', ''subscription.halted'', ''subscription.pending'',
       ''subscription.updated''] \<and>
    d_subscription data = Some sp \<and>
    (\<forall>s\<in>set (subscriptions w). razorpaySubscriptionId s \<noteq> sp_id sp)"
  then have n: "find (\<lambda>s. razorpaySubscriptionId s = sp_id sp) (subscriptions w) = None"
    by (intro find_None_unknown) simp
  from a have sp: "d_subscription data = Some sp" by simp
  from a have "event = ''subscription.activated'' \<or> event = ''subscription.charged'' \<or>
     event = ''subscription.completed'' \<or> event = ''subscription.cancelled'' \<or>
     event = ''subscription.paused'' \<or> event = ''subscription.resumed'' \<or>
     event = ''subscription.halted'' \<or> event = ''subscription.pending'' \<or>
     event = ''subscription.updated''" by simp
  then show "handleWebhook ev event data w = (Inr (), w)"
    using n sp
    by (elim disjE)
      (simp_all add: handleWebhook_def handleSubscriptionActivated_def
        handleSubscriptionCharged_def handleSubscriptionCompleted_def
        handleSubscriptionCancelled_def handleSubscriptionPaused_def
        handleSubscriptionResumed_def handleSubscriptionHalted_def
        handleSubscriptionPending_def handleSubscriptionUpdated_def)
next
  assume a: "event \<in> set [''payment.captured'', ''payment.failed''] \<and>
    d_payment data = Some pp \<and>
    (\<forall>p\<in>set (payments w). razorpayPaymentId p \<noteq> pp_id pp)"
  then have n: "find (\<lambda>p. razorpayPaymentId p = pp_id pp) (payments w) = None"
    by (intro find_None_unknown) simp
  from a have pp: "d_payment data = Some pp" by simp
  from a have "event = ''payment.captured'' \<or> event = ''payment.failed''" by simp
  then show "handleWebhook ev event data w = (Inr (), w)"
    using n pp
    by (elim disjE)
      (simp_all add: handleWebhook_def handlePaymentCaptured_def handlePaymentFailed_def)
qed

theorem orphan_event_is_acknowledged_witness:
  "d_subscription scenario_orphan = Some \<lparr>sp_id = ''sub_unknown'', current_end = 9000\<rparr> \<and>
   map razorpaySubscriptionId (subscriptions scenario_world) = [''sub_A''] \<and>
   handleWebhook scenario_env ''subscription.cancelled'' scenario_orphan scenario_world =
     (Inr (), scenario_world) \<and>
   handleWebhook scenario_env ''subscription.charged'' scenario_orphan scenario_world =
     (Inr (), scenario_world) \<and>
   payments scenario_world = [] \<and>
   handleWebhook scenario_env ''payment.captured'' scenario_orphan scenario_world =
     (Inr (), scenario_world)"
proof -
  have d: "d_subscription scenario_orphan = Some \<lparr>sp_id = ''sub_unknown'', current_end = 9000\<rparr>"
    "d_payment scenario_orphan = Some
        \<lparr>pp_id = ''pay_unknown'', order_id = ''order_Y'', pp_amount = 500,
         pp_currency = Some ''INR'', pp_method = ''upi'', created_at = 1, card = None,
         error_code = [], error_description = [], error_source = [], error_step = [],
         error_reason = []\<rparr>"
    by (simp_all add: scenario_orphan_def)
  have s: "map razorpaySubscriptionId (subscriptions scenario_world) = [''sub_A'']"
    "\<forall>s\<in>set (subscriptions scenario_world). razorpaySubscriptionId s \<noteq> ''sub_unknown''"
    "payments scenario_world = []"
    by (simp_all add: scenario_world_def scenario_subscription_def)
  show ?thesis
    using d s
      orphan_event_is_acknowledged [of "''subscription.cancelled''" scenario_orphan
        "\<lparr>sp_id = ''sub_unknown'', current_end = 9000\<rparr>" scenario_world scenario_env]
      orphan_event_is_acknowledged [of "''subscription.charged''" scenario_orphan
        "\<lparr>sp_id = ''sub_unknown'', current_end = 9000\<rparr>" scenario_world scenario_env]
      orphan_event_is_acknowledged [of "''payment.captured''" scenario_orphan _ scenario_world
        scenario_env "\<lparr>pp_id = ''pay_unknown'', order_id = ''order_Y'', pp_amount = 500,
         pp_currency = Some ''INR'', pp_method = ''upi'', created_at = 1, card = None,
         error_code = [], error_description = [], error_source = [], error_step = [],
         error_reason = []\<rparr>"]
    by simp
qed

section \<open>Properties of the lookups\<close>

lemma find_endDate:
  "find (\<lambda>s. P (s_user s) (s_status s)) (map (\<lambda>s. s\<lparr>endDate := d s\<rparr>) xs) =
   map_option (\<lambda>s. s\<lparr>endDate := d s\<rparr>) (find (\<lambda>s. P (s_user s) (s_status s)) xs)"
  by (induction xs) auto

text \<open>
  Claim C7, as the code has it. There is no entitlement resolver and no free tier. The
  lookup \<open>getUserActiveSubscription\<close> returns a subscription of the user whose status is
  \<open>active\<close> or \<open>trialing\<close> exactly when the user has one, and \<open>getUsageStats\<close> then returns
  its stored usage and features and otherwise fails with NotFound; \<open>endDate\<close> is not
  consulted, so changing the end dates changes no answer. \<open>hasActiveSubscription\<close> (and
  \<open>isActive\<close> of \<open>getSubscriptionInfo\<close>) is true exactly when the user is stored, its
  \<open>subscriptionStatus\<close> is \<open>active\<close> or \<open>trial\<close>, and its \<open>subscriptionExpiry\<close> is unset or
  in the future. All of them only read.
\<close>

theorem active_subscription_ignores_endDate:
  "(getUserActiveSubscription userId w = None \<longleftrightarrow>
      (\<forall>s\<in>set (subscriptions w).
         \<not> (s_user s = userId \<and> (s_status s = ''active'' \<or> s_status s = ''trialing'')))) \<and>
   (\<forall>s. getUserActiveSubscription userId w = Some s \<longrightarrow>
      s \<in> set (subscriptions w) \<and> s_user s = userId \<and>
      (s_status s = ''active'' \<or> s_status s = ''trialing'') \<and>
      getUsageStats userId w = Inr (usage s, features s, s_plan s)) \<and>
   (getUserActiveSubscription userId w = None \<longrightarrow>
      getUsageStats userId w = Inl (APIError ''No active subscription found'' 404)) \<and>
   getUsageStats userId (w\<lparr>subscriptions := map (\<lambda>s. s\<lparr>endDate := d s\<rparr>) (subscriptions w)\<rparr>) =
     getUsageStats userId w \<and>
   (hasActiveSubscription ev userId w \<longleftrightarrow>
      (\<exists>u. find (\<lambda>u. u_id u = userId) (users w) = Some u \<and>
           (subscriptionStatus u = ''active'' \<or> subscriptionStatus u = ''trial'') \<and>
           (subscriptionExpiry u = None \<or> (\<exists>e. subscriptionExpiry u = Some e \<and> now ev < e)))) \<and>
   (\<forall>i. getSubscriptionInfo ev userId w = Some i \<longrightarrow>
      i_isActive i = hasActiveSubscription ev userId w)"
proof (intro conjI allI impI)
  show "getUserActiveSubscription userId w = None \<longleftrightarrow>
      (\<forall>s\<in>set (subscriptions w).
         \<not> (s_user s = userId \<and> (s_status s = ''active'' \<or> s_status s = ''trialing'')))"
    by (auto simp: getUserActiveSubscription_def find_None_iff)
next
  fix s
  assume a: "getUserActiveSubscription userId w = Some s"
  then have "s \<in> set (subscriptions w) \<and> s_user s = userId \<and>
      (s_status s = ''active'' \<or> s_status s = ''trialing'')"
    using find_Some_member [of _ "subscriptions w" s]
    by (auto simp: getUserActiveSubscription_def)
  then show "s \<in> set (subscriptions w)" "s_user s = userId"
    "s_status s = ''active'' \<or> s_status s = ''trialing''"
    by simp_all
  show "getUsageStats userId w = Inr (usage s, features s, s_plan s)"
    using a by (simp add: getUsageStats_def)
next
  assume "getUserActiveSubscription userId w = None"
  then show "getUsageStats userId w = Inl (APIError ''No active subscription found'' 404)"
    by (simp add: getUsageStats_def)
next
  have "getUserActiveSubscription userId
          (w\<lparr>subscriptions := map (\<lambda>s. s\<lparr>endDate := d s\<rparr>) (subscriptions w)\<rparr>) =
        map_option (\<lambda>s. s\<lparr>endDate := d s\<rparr>) (getUserActiveSubscription userId w)"
    using find_endDate [of "\<lambda>u st. u = userId \<and> st \<in> set [''active'', ''trialing'']" d
        "subscriptions w"]
    by (simp add: getUserActiveSubscription_def)
  then show "getUsageStats userId
      (w\<lparr>subscriptions := map (\<lambda>s. s\<lparr>endDate := d s\<rparr>) (subscriptions w)\<rparr>) =
     getUsageStats userId w"
    by (cases "getUserActiveSubscription userId w") (simp_all add: getUsageStats_def)
next
  show "hasActiveSubscription ev userId w \<longleftrightarrow>
      (\<exists>u. find (\<lambda>u. u_id u = userId) (users w) = Some u \<and>
           (subscriptionStatus u = ''active'' \<or> subscriptionStatus u = ''trial'') \<and>
           (subscriptionExpiry u = None \<or> (\<exists>e. subscriptionExpiry u = Some e \<and> now ev < e)))"
    by (auto simp: hasActiveSubscription_def split: option.splits)
next
  fix i
  assume "getSubscriptionInfo ev userId w = Some i"
  then show "i_isActive i = hasActiveSubscription ev userId w"
    by (auto simp: getSubscriptionInfo_def hasActiveSubscription_def split: option.splits)
qed

theorem active_subscription_ignores_endDate_witness:
  "getUserActiveSubscription 7 scenario_world = Some scenario_subscription \<and>
   scenario_subscription \<in> set (subscriptions scenario_world) \<and>
   s_status scenario_subscription = ''trialing'' \<and>
   getUsageStats 7 scenario_world =
     Inr (usage scenario_subscription, features scenario_subscription, 3) \<and>
   getUserActiveSubscription 8 scenario_world = None \<and>
   getUsageStats 8 scenario_world = Inl (APIError ''No active subscription found'' 404)"
proof -
  have a: "getUserActiveSubscription 7 scenario_world = Some scenario_subscription"
    "getUserActiveSubscription 8 scenario_world = None"
    "s_plan scenario_subscription = 3" "s_status scenario_subscription = ''trialing''"
    by (simp_all add: getUserActiveSubscription_def scenario_world_def scenario_subscription_def)
  show ?thesis
    using a active_subscription_ignores_endDate [of 7 scenario_world "\<lambda>s. None" scenario_env]
      active_subscription_ignores_endDate [of 8 scenario_world "\<lambda>s. None" scenario_env]
    by auto
qed

text \<open>
  At time 6000 the subscription of the scenario is past its \<open>endDate\<close> 5000 and is still
  the user's active subscription, with its snapshot; a user without a subscription gets
  NotFound, not a free tier.
\<close>

theorem entitlement_counterexample:
  "endDate scenario_subscription = Some 5000 \<and> 5000 < now scenario_env_late \<and>
   getUserActiveSubscription 7 scenario_world = Some scenario_subscription \<and>
   getUsageStats 7 scenario_world =
     Inr (usage scenario_subscription, features scenario_subscription, 3) \<and>
   hasActiveSubscription scenario_env_late 7 scenario_world \<and>
   getUserActiveSubscription 8 scenario_world = None \<and>
   getUsageStats 8 scenario_world = Inl (APIError ''No active subscription found'' 404) \<and>
   getSubscriptionInfo scenario_env_late 8 scenario_world = None"
  by (simp add: getUserActiveSubscription_def getUsageStats_def hasActiveSubscription_def
      getSubscriptionInfo_def scenario_env_late_def scenario_env_def scenario_world_def
      scenario_subscription_def scenario_user_def)

section \<open>Properties of redelivery\<close>

lemma charged_redeliveries:
  assumes sp: "d_subscription data = Some sp"
    and pp: "d_payment data = Some pp"
  shows "find (\<lambda>s. razorpaySubscriptionId s = sp_id sp) (subscriptions w) = Some s \<Longrightarrow>
    find (\<lambda>u. u_id u = s_user s) (users w) = Some u \<Longrightarrow>
    \<exists>p\<in>set (payments w). razorpayPaymentId p = pp_id pp \<Longrightarrow>
    payments (deliveries evs ''subscription.charged'' data w) = payments w \<and>
    (\<exists>s'. find (\<lambda>s. razorpaySubscriptionId s = sp_id sp)
             (subscriptions (deliveries evs ''subscription.charged'' data w)) = Some s' \<and>
          length (history s') = length (history s) + length evs) \<and>
    notifications (deliveries evs ''subscription.charged'' data w) = notifications w"
proof (induction evs arbitrary: w s u)
  case Nil
  then show ?case by simp
next
  case (Cons ev evs)
  let ?w1 = "snd (handleWebhook ev ''subscription.charged'' data w)"
  let ?s1 = "s\<lparr>nextBillingDate := Some (current_end sp * 1000),
                endDate := Some (current_end sp * 1000),
                history := history s @
                  [\<lparr>h_action = ''renewed'', h_date = now ev,
                    h_details = ''Subscription renewed. Payment: '' @
                      rupees ev (pp_amount pp)\<rparr>]\<rparr>"
  let ?u1 = "u\<lparr>subscriptionStatus := ''active'',
                subscriptionExpiry := Some (current_end sp * 1000)\<rparr>"
  have a: "find (\<lambda>s. razorpaySubscriptionId s = sp_id sp) (subscriptions ?w1) = Some ?s1"
    using charged_step(1) [OF sp pp Cons.prems(1,2)] .
  have b: "find (\<lambda>u. u_id u = s_user ?s1) (users ?w1) = Some ?u1"
    using charged_step(2) [OF sp pp Cons.prems(1,2), of ev] by simp
  have c: "payments ?w1 = payments w"
    using charged_step(4) [OF sp pp Cons.prems(1,2) Cons.prems(3), of ev] by simp
  have d: "notifications ?w1 = notifications w"
    using charged_step(3) [OF sp pp Cons.prems(1,2)] .
  have e: "\<exists>p\<in>set (payments ?w1). razorpayPaymentId p = pp_id pp"
    using Cons.prems(3) c by simp
  from Cons.IH [OF a b e] c d show ?case by auto
qed

lemma await_payments_length:
  assumes "\<And>w. length (payments (snd (m w))) = length (payments w)"
    and "\<And>a w. length (payments (snd (k a w))) = length (payments w)"
  shows "length (payments (snd (await m k w))) = length (payments w)"
proof (cases "m w")
  case (Pair r w1)
  have l: "length (payments w1) = length (payments w)" using assms(1) [of w] Pair by simp
  show ?thesis
  proof (cases r)
    case (Inl e)
    then show ?thesis using Pair l by (simp add: await_def)
  next
    case (Inr a)
    then show ?thesis using Pair l assms(2) [of a w1] by (simp add: await_def)
  qed
qed

lemma updatePaymentStatus_length:
  "length (payments (snd (updatePaymentStatus ev i st f w))) = length (payments w)"
  by (simp add: updatePaymentStatus_def Let_def split: option.splits)

lemma addNote_length: "length (payments (snd (addNote ev i c w))) = length (payments w)"
  by (simp add: addNote_def)

lemma createNotification_length:
  "length (payments (snd (createNotification n w))) = length (payments w)"
  by (simp add: createNotification_def Let_def split: option.splits)

lemma resolve_length: "length (payments (snd (resolve a w))) = length (payments w)"
  by (simp add: resolve_def)

lemma handlePaymentCaptured_length:
  "length (payments (snd (handlePaymentCaptured ev data w))) = length (payments w)"
  unfolding handlePaymentCaptured_def
  by (auto split: option.splits
      intro!: await_payments_length updatePaymentStatus_length addNote_length
        createNotification_length resolve_length)

lemma handlePaymentFailed_length:
  "length (payments (snd (handlePaymentFailed ev data w))) = length (payments w)"
  unfolding handlePaymentFailed_def
  by (auto split: option.splits
      intro!: await_payments_length updatePaymentStatus_length addNote_length
        createNotification_length resolve_length)

text \<open>
  Claim C2, as the code has it. Delivering \<open>subscription.charged\<close> again never creates
  a second payment: when no payment has the id before the first delivery and that
  delivery can create it (stored subscription and user, payment data the schema accepts,
  an unused receipt number), then after any number of further deliveries exactly one
  payment has the id, the payments are what the first delivery left, and no notification
  has been duplicated. The final state is not one state, though: each delivery appends one
  more \<open>renewed\<close> entry to the history. \<open>payment.captured\<close> and \<open>payment.failed\<close> never
  add a payment.
\<close>

theorem charged_redelivery_keeps_one_payment:
  fixes ev :: env
  assumes "d_subscription data = Some sp"
    and "d_payment data = Some pp"
    and "find (\<lambda>s. razorpaySubscriptionId s = sp_id sp) (subscriptions w) = Some s"
    and "find (\<lambda>u. u_id u = s_user s) (users w) = Some u"
    and "\<forall>p\<in>set (payments w). razorpayPaymentId p \<noteq> pp_id pp"
    and "pp_id pp \<noteq> []" and "order_id pp \<noteq> []" and "0 \<le> pp_amount pp"
    and "case pp_currency pp of None \<Rightarrow> True | Some c \<Rightarrow> c \<in> set currencyEnum"
    and "pp_method pp \<in> set paymentMethodEnum"
    and "receipt ev \<notin> set (map receipt_number (payments w))"
  shows "length (filter (\<lambda>p. razorpayPaymentId p = pp_id pp)
           (payments (deliveries (ev # evs) ''subscription.charged'' data w))) = 1 \<and>
         payments (deliveries (ev # evs) ''subscription.charged'' data w) =
           payments (deliveries [ev] ''subscription.charged'' data w) \<and>
         (\<exists>s'. find (\<lambda>s. razorpaySubscriptionId s = sp_id sp)
                 (subscriptions (deliveries (ev # evs) ''subscription.charged'' data w)) = Some s' \<and>
               length (history s') = length (history s) + Suc (length evs)) \<and>
         notifications (deliveries (ev # evs) ''subscription.charged'' data w) =
           notifications w \<and>
         (\<forall>event w0 data0. event \<in> set [''payment.captured'', ''payment.failed''] \<longrightarrow>
            length (payments (snd (handleWebhook ev event data0 w0))) = length (payments w0))"
proof -
  let ?w1 = "snd (handleWebhook ev ''subscription.charged'' data w)"
  let ?s1 = "s\<lparr>nextBillingDate := Some (current_end sp * 1000),
                endDate := Some (current_end sp * 1000),
                history := history s @
                  [\<lparr>h_action = ''renewed'', h_date = now ev,
                    h_details = ''Subscription renewed. Payment: '' @
                      rupees ev (pp_amount pp)\<rparr>]\<rparr>"
  let ?u1 = "u\<lparr>subscriptionStatus := ''active'',
                subscriptionExpiry := Some (current_end sp * 1000)\<rparr>"
  have a: "find (\<lambda>s. razorpaySubscriptionId s = sp_id sp) (subscriptions ?w1) = Some ?s1"
    using charged_step(1) [OF assms(1-4)] .
  have b: "find (\<lambda>u. u_id u = s_user ?s1) (users ?w1) = Some ?u1"
    using charged_step(2) [OF assms(1-4), of ev] by simp
  obtain doc where doc: "payments ?w1 = payments w @ [doc]" "razorpayPaymentId doc = pp_id pp"
    using charged_step(5) [OF assms(1-4) assms(5-11)] by blast
  have n1: "notifications ?w1 = notifications w"
    using charged_step(3) [OF assms(1-4)] .
  have e: "\<exists>p\<in>set (payments ?w1). razorpayPaymentId p = pp_id pp"
    using doc by auto
  have one: "length (filter (\<lambda>p. razorpayPaymentId p = pp_id pp) (payments ?w1)) = 1"
    using doc assms(5) by (simp add: filter_empty_conv)
  note re = charged_redeliveries [OF assms(1,2) a b e, of evs]
  have cap: "length (payments (snd (handleWebhook ev event data0 w0))) = length (payments w0)"
    if "event \<in> set [''payment.captured'', ''payment.failed'']" for event w0 data0
  proof -
    from that have "event = ''payment.captured'' \<or> event = ''payment.failed''" by simp
    then show ?thesis
      by (elim disjE)
        (simp_all add: handleWebhook_def handlePaymentCaptured_length handlePaymentFailed_length)
  qed
  have d: "deliveries (ev # evs) ''subscription.charged'' data w =
      deliveries evs ''subscription.charged'' data ?w1"
    "deliveries [ev] ''subscription.charged'' data w = ?w1"
    by simp_all
  have p: "payments (deliveries (ev # evs) ''subscription.charged'' data w) = payments ?w1"
    unfolding d using re by blast
  have c1: "length (filter (\<lambda>p. razorpayPaymentId p = pp_id pp)
           (payments (deliveries (ev # evs) ''subscription.charged'' data w))) = 1"
    using p one by simp
  have c2: "payments (deliveries (ev # evs) ''subscription.charged'' data w) =
           payments (deliveries [ev] ''subscription.charged'' data w)"
    using p d(2) by simp
  from re obtain s' where s': "find (\<lambda>s. razorpaySubscriptionId s = sp_id sp)
      (subscriptions (deliveries evs ''subscription.charged'' data ?w1)) = Some s'"
      "length (history s') = length (history ?s1) + length evs"
    by blast
  have c3: "\<exists>s'. find (\<lambda>s. razorpaySubscriptionId s = sp_id sp)
                 (subscriptions (deliveries (ev # evs) ''subscription.charged'' data w)) = Some s' \<and>
               length (history s') = length (history s) + Suc (length evs)"
    unfolding d using s' by (intro exI [of _ s']) simp
  have c4: "notifications (deliveries (ev # evs) ''subscription.charged'' data w) =
           notifications w"
    unfolding d using re n1 by simp
  have c5: "\<forall>event w0 data0. event \<in> set [''payment.captured'', ''payment.failed''] \<longrightarrow>
            length (payments (snd (handleWebhook ev event data0 w0))) = length (payments w0)"
    using cap by blast
  show ?thesis
    using c1 c2 c3 c4 c5 by (intro conjI)
qed

theorem charged_redelivery_keeps_one_payment_witness:
  "payments scenario_world = [] \<and>
   length (filter (\<lambda>p. razorpayPaymentId p = ''pay_X'')
     (payments (deliveries [scenario_env, scenario_env_late, scenario_env_late]
        ''subscription.charged'' scenario_data scenario_world))) = 1 \<and>
   payments (deliveries [scenario_env, scenario_env_late, scenario_env_late]
        ''subscription.charged'' scenario_data scenario_world) =
     payments (deliveries [scenario_env] ''subscription.charged'' scenario_data scenario_world) \<and>
   (\<exists>s'. find (\<lambda>s. razorpaySubscriptionId s = ''sub_A'')
           (subscriptions (deliveries [scenario_env, scenario_env_late, scenario_env_late]
              ''subscription.charged'' scenario_data scenario_world)) = Some s' \<and>
         length (history s') = 4) \<and>
   notifications (deliveries [scenario_env, scenario_env_late, scenario_env_late]
        ''subscription.charged'' scenario_data scenario_world) = []"
proof -
  let ?pp = "\<lparr>pp_id = ''pay_X'', order_id = ''order_X'', pp_amount = 2999,
         pp_currency = Some ''INR'', pp_method = ''card'', created_at = 1, card = None,
         error_code = [], error_description = [], error_source = [], error_step = [],
         error_reason = []\<rparr>"
  have pp: "d_payment scenario_data = Some ?pp" by (simp add: scenario_data_def)
  have p0: "payments scenario_world = []" by (simp add: scenario_world_def)
  have h: "\<forall>p\<in>set (payments scenario_world). razorpayPaymentId p \<noteq> pp_id ?pp"
    "pp_id ?pp \<noteq> []" "order_id ?pp \<noteq> []" "0 \<le> pp_amount ?pp"
    "case pp_currency ?pp of None \<Rightarrow> True | Some c \<Rightarrow> c \<in> set currencyEnum"
    "pp_method ?pp \<in> set paymentMethodEnum"
    "receipt scenario_env \<notin> set (map receipt_number (payments scenario_world))"
    by (simp_all add: p0 currencyEnum_def paymentMethodEnum_def)
  have l: "length (history scenario_subscription) = 1" "notifications scenario_world = []"
    by (simp_all add: scenario_subscription_def scenario_world_def)
  let ?w = "deliveries [scenario_env, scenario_env_late, scenario_env_late]
        ''subscription.charged'' scenario_data scenario_world"
  note T = charged_redelivery_keeps_one_payment [OF scenario_facts(1) pp scenario_facts(2,4) h,
        of "[scenario_env_late, scenario_env_late]"]
  have t1: "length (filter (\<lambda>p. razorpayPaymentId p = ''pay_X'') (payments ?w)) = 1"
    using T [THEN conjunct1] by (simp del: deliveries.simps)
  have t2: "payments ?w =
      payments (deliveries [scenario_env] ''subscription.charged'' scenario_data scenario_world)"
    using T [THEN conjunct2, THEN conjunct1] .
  from T [THEN conjunct2, THEN conjunct2, THEN conjunct1] obtain s' where s':
      "find (\<lambda>s. razorpaySubscriptionId s = ''sub_A'') (subscriptions ?w) = Some s'"
      "length (history s') = length (history scenario_subscription) + Suc (length
         [scenario_env_late, scenario_env_late])"
    by (auto simp del: deliveries.simps)
  have t3: "\<exists>s'. find (\<lambda>s. razorpaySubscriptionId s = ''sub_A'') (subscriptions ?w) = Some s' \<and>
         length (history s') = 4"
    using s' l by (intro exI [of _ s']) simp
  have t4: "notifications ?w = []"
    using T [THEN conjunct2, THEN conjunct2, THEN conjunct2, THEN conjunct1] l by simp
  show ?thesis using p0 t1 t2 t3 t4 by (intro conjI)
qed

text \<open>
  \<open>payment.captured\<close> for a payment id that is not stored is processed without an error,
  twice, and leaves no payment with that id. \<open>subscription.charged\<close> delivered twice
  leaves two \<open>renewed\<close> entries where one delivery leaves one, so the final state depends
  on the number of deliveries; each of these deliveries ends with the error of the
  notification.
\<close>

theorem redelivery_counterexample:
  "handleWebhook scenario_env ''payment.captured'' scenario_data scenario_world =
     (Inr (), scenario_world) \<and>
   deliveries [scenario_env, scenario_env_late] ''payment.captured'' scenario_data
     scenario_world = scenario_world \<and>
   filter (\<lambda>p. razorpayPaymentId p = ''pay_X'') (payments scenario_world) = [] \<and>
   fst (handleWebhook scenario_env ''subscription.charged'' scenario_data scenario_world) =
     Inl (ValidationError ''relatedEntity.type'') \<and>
   map (\<lambda>s. map h_action (history s))
     (subscriptions (deliveries [scenario_env] ''subscription.charged''
        scenario_data scenario_world)) = [[''created'', ''renewed'']] \<and>
   map (\<lambda>s. map h_action (history s))
     (subscriptions (deliveries [scenario_env, scenario_env_late] ''subscription.charged''
        scenario_data scenario_world)) = [[''created'', ''renewed'', ''renewed'']] \<and>
   map razorpayPaymentId (payments (deliveries [scenario_env, scenario_env_late]
     ''subscription.charged'' scenario_data scenario_world)) = [''pay_X'']"
  by (simp add: handler_eval)


section \<open>Properties of the signature check\<close>

text \<open>
  \<open>verifyWebhookSignature\<close> answers true exactly when the signature is the hex digest of
  the body under the secret. No function of the webhook service calls it.
\<close>

lemma verifyWebhookSignature_iff:
  "verifyWebhookSignature hmacSha256Hex secret body signature \<longleftrightarrow>
     hmacSha256Hex secret body = Some signature"
  by (simp add: verifyWebhookSignature_def split: option.splits)


end
